theory Spec2Isabelle
  imports Main
begin

section \<open>Resource schema (pkg/apis/blockchain/v1alpha1/axelarnode\_types.go)\<close>

text \<open>
  The Go structs are records. Go field names that occur in more than one struct
  (\<open>Enabled\<close>, \<open>Port\<close>, \<open>Name\<close>, \<open>Spec\<close>, ...) carry the struct's name as a prefix.
  The \<open>int32\<close> and \<open>int64\<close> fields are \<open>int\<close>: the controller only copies, compares
  and prints them, it never does arithmetic on them. Pointers are \<open>option\<close>s, timestamps
  are natural numbers.
\<close>

record ImageSpec =
  Repository :: string
  Tag :: string
  PullPolicy :: string

record BackupSpec =
  Backup_Enabled :: bool
  Schedule :: string
  Retention :: string

record StorageSpec =
  Size :: string
  StorageClass :: string
  Backup :: BackupSpec

record KeyManagementSpec =
  KeyManagement_AutoRotation :: bool
  RotationSchedule :: string
  BackupKeys :: bool

record SlashingSpec =
  Protection :: bool
  MaxMissedBlocks :: int

record ValidatorSpec =
  Validator_Enabled :: bool
  KeyManagement :: KeyManagementSpec
  Slashing :: SlashingSpec

record P2PSpec =
  P2P_Port :: int
  ExternalAddress :: string
  PersistentPeers :: "string list"
  Seeds :: "string list"

record RPCSpec =
  RPC_Enabled :: bool
  RPC_Port :: int
  CORS :: bool

record APISpec =
  API_Enabled :: bool
  API_Port :: int

record NetworkingSpec =
  P2P :: P2PSpec
  RPC :: RPCSpec
  API :: APISpec

record PrometheusSpec =
  Prometheus_Port :: int
  Prometheus_Path :: string

record SlackSpec =
  Webhook :: string
  Channel :: string

record AlertsSpec =
  Alerts_Enabled :: bool
  Slack :: SlackSpec

record MonitoringSpec =
  Monitoring_Enabled :: bool
  Prometheus :: PrometheusSpec
  Alerts :: AlertsSpec

record UpgradeSpec =
  Strategy :: string
  AutoUpgrade :: bool
  PreUpgradeBackup :: bool
  RollbackOnFailure :: bool

record SecretManagementSpec =
  Provider :: string
  SecretManagement_AutoRotation :: bool

text \<open>The two library structs the spec passes through unchanged (corev1).\<close>

record ResourceRequirements =
  Limits :: "string \<rightharpoonup> string"
  Requests :: "string \<rightharpoonup> string"

record PodSecurityContext =
  RunAsUser :: "int option"
  RunAsNonRoot :: "bool option"
  FSGroup :: "int option"

record SecuritySpec =
  Security_PodSecurityContext :: "PodSecurityContext option"
  NetworkPolicies :: bool
  SecretManagement :: SecretManagementSpec

record AxelarNodeSpec =
  NodeType :: string
  Network :: string
  Moniker :: string
  Image :: ImageSpec
  Resources :: ResourceRequirements
  Storage :: StorageSpec
  Validator :: "ValidatorSpec option"
  Networking :: NetworkingSpec
  Monitoring :: MonitoringSpec
  Upgrade :: UpgradeSpec
  Security :: SecuritySpec

record SyncInfo =
  CurrentHeight :: int
  LatestHeight :: int
  CatchingUp :: bool
  LastSyncTime :: "nat option"

record NetworkInfo =
  Peers :: int
  NodeID :: string
  NetworkInfo_Network :: string

record ValidatorInfo =
  Address :: string
  VotingPower :: int
  MissedBlocks :: int
  LastSignedHeight :: int

record Condition =
  Condition_Type :: string
  Condition_Status :: string
  Reason :: string
  Message :: string

record AxelarNodeStatus =
  Phase :: string
  Conditions :: "Condition list"
  SyncInfo :: SyncInfo
  NetworkInfo :: NetworkInfo
  ValidatorInfo :: "ValidatorInfo option"
  LastBackup :: "nat option"
  LastUpgrade :: "nat option"

text \<open>
  \<open>metav1.ObjectMeta\<close> is embedded in every object; the objects below extend this
  record, as the Go structs embed it. An owner reference is the owner's name.
\<close>

record ObjectMeta =
  Name :: string
  Namespace :: string
  Labels :: "string \<rightharpoonup> string"
  Annotations :: "string \<rightharpoonup> string"
  OwnerReferences :: "string list"
  Finalizers :: "string list"
  DeletionTimestamp :: "nat option"

record AxelarNode = ObjectMeta +
  Spec :: AxelarNodeSpec
  Status :: AxelarNodeStatus

section \<open>Dependent objects (the fields of corev1 and appsv1 that the controller uses)\<close>

record ConfigMap = ObjectMeta +
  ConfigMap_Data :: "string \<rightharpoonup> string"

record Secret = ObjectMeta +
  Secret_Type :: string
  Secret_Data :: "string \<rightharpoonup> string"

record PersistentVolumeClaim = ObjectMeta +
  AccessModes :: "string list"
  StorageRequest :: string
  StorageClassName :: "string option"

record ServicePort =
  ServicePort_Name :: string
  ServicePort_Port :: int
  TargetPort :: int

record Service = ObjectMeta +
  Selector :: "string \<rightharpoonup> string"
  Service_Ports :: "ServicePort list"

record SecretKeySelector =
  SecretKeyRef_Name :: string
  Key :: string

record EnvVar =
  EnvVar_Name :: string
  Value :: string
  ValueFrom :: "SecretKeySelector option"

record ContainerPort =
  ContainerPort_Name :: string
  ContainerPort :: int

record VolumeMount =
  VolumeMount_Name :: string
  MountPath :: string

record Probe =
  HTTPGet_Path :: string
  HTTPGet_Port :: int
  InitialDelaySeconds :: int
  PeriodSeconds :: int

record Container =
  Container_Name :: string
  Container_Image :: string
  ImagePullPolicy :: string
  Command :: "string list"
  Args :: "string list"
  Env :: "EnvVar list"
  Container_Ports :: "ContainerPort list"
  Container_Resources :: "ResourceRequirements option"
  VolumeMounts :: "VolumeMount list"
  LivenessProbe :: "Probe option"
  ReadinessProbe :: "Probe option"

datatype VolumeSource = PersistentVolumeClaimSource string | ConfigMapSource string

record Volume =
  Volume_Name :: string
  VolumeSource :: VolumeSource

record PodSpec =
  Containers :: "Container list"
  Volumes :: "Volume list"
  SecurityContext :: "PodSecurityContext option"

datatype DeploymentStrategyType = RecreateDeploymentStrategyType | RollingUpdateDeploymentStrategyType

record DeploymentSpec =
  Replicas :: "int option"
  Strategy_Type :: DeploymentStrategyType
  MatchLabels :: "string \<rightharpoonup> string"
  Template_Labels :: "string \<rightharpoonup> string"
  Template_Annotations :: "string \<rightharpoonup> string"
  Template_Spec :: PodSpec

record DeploymentStatus =
  Status_Replicas :: int
  ReadyReplicas :: int

record Deployment = ObjectMeta +
  Deployment_Spec :: DeploymentSpec
  Deployment_Status :: DeploymentStatus

section \<open>Formatting (fmt.Sprintf verbs \<open>%d\<close>, \<open>%t\<close>) and joinStrings\<close>

fun digits :: "nat \<Rightarrow> string" where
  "digits n = (if n < 10 then [''0123456789'' ! n]
               else digits (n div 10) @ [''0123456789'' ! (n mod 10)])"

declare digits.simps [simp del]

definition fmt_d :: "int \<Rightarrow> string" where
  "fmt_d i = (if i < 0 then ''-'' @ digits (nat (- i)) else digits (nat i))"

definition fmt_t :: "bool \<Rightarrow> string" where
  "fmt_t b = (if b then ''true'' else ''false'')"

definition nl :: string where
  "nl = [CHR 0x0A]"

text \<open>A Go raw string that starts with a line break and ends each line with one.\<close>

definition raw_lines :: "string list \<Rightarrow> string" where
  "raw_lines ls = nl @ concat (map (\<lambda>l. l @ nl) ls)"

text \<open>
  \<open>joinStrings\<close>: the empty string for an empty slice, otherwise the first element
  followed by a comma and the next element, for each further index.
\<close>

fun joinStrings :: "string list \<Rightarrow> string" where
  "joinStrings [] = ''''"
| "joinStrings (s # strs) = foldl (\<lambda>result x. result @ '','' @ x) s strs"

section \<open>Desired-state generators\<close>

definition mkMeta :: "string \<Rightarrow> string \<Rightarrow> ObjectMeta" where
  "mkMeta n ns = \<lparr>Name = n, Namespace = ns, Labels = Map.empty, Annotations = Map.empty,
     OwnerReferences = [], Finalizers = [], DeletionTimestamp = None\<rparr>"

text \<open>
  \<open>controllerutil.SetControllerReference\<close> on a freshly built object in the owner's
  namespace, with the owner's type registered in the scheme (main registers it): the
  owner reference is recorded and no error is returned.
\<close>

definition SetControllerReference :: "AxelarNode \<Rightarrow> 'a ObjectMeta_scheme \<Rightarrow> 'a ObjectMeta_scheme" where
  "SetControllerReference owner obj = obj\<lparr>OwnerReferences := [Name owner]\<rparr>"

definition generateConfigMapData :: "AxelarNode \<Rightarrow> (string \<rightharpoonup> string)" where
  \<open>generateConfigMapData axelarNode =
    (let chainId = (if Network (Spec axelarNode) = ''mainnet'' then ''axelar-dojo-1''
                    else ''axelar-testnet-lisbon-3'');
         mon = Monitoring (Spec axelarNode);
         net = Networking (Spec axelarNode)
     in [''app.toml'' \<mapsto> raw_lines
           [''# Axelar Node Configuration'',
            ''minimum-gas-prices = "0.007uaxl"'',
            ''pruning = "default"'',
            ''halt-height = 0'',
            '''',
            ''[telemetry]'',
            ''enabled = '' @ fmt_t (Monitoring_Enabled mon),
            ''prometheus-retention-time = 60'',
            '''',
            ''[api]'',
            ''enable = '' @ fmt_t (API_Enabled (API net)),
            ''address = "tcp://0.0.0.0:'' @ fmt_d (API_Port (API net)) @ ''"'',
            '''',
            ''[grpc]'',
            ''enable = true'',
            ''address = "0.0.0.0:9090"''],
         ''config.toml'' \<mapsto> raw_lines
           [''# Tendermint Configuration'',
            ''moniker = "'' @ Moniker (Spec axelarNode) @ ''"'',
            ''fast_sync = true'',
            ''db_backend = "goleveldb"'',
            ''log_level = "info"'',
            ''log_format = "json"'',
            '''',
            ''[rpc]'',
            ''laddr = "tcp://0.0.0.0:'' @ fmt_d (RPC_Port (RPC net)) @ ''"'',
            ''cors_allowed_origins = []'',
            ''unsafe = false'',
            '''',
            ''[p2p]'',
            ''laddr = "tcp://0.0.0.0:'' @ fmt_d (P2P_Port (P2P net)) @ ''"'',
            ''external_address = "'' @ ExternalAddress (P2P net) @ ''"'',
            ''persistent_peers = "'' @ joinStrings (PersistentPeers (P2P net)) @ ''"'',
            ''seeds = "'' @ joinStrings (Seeds (P2P net)) @ ''"'',
            ''max_num_inbound_peers = 40'',
            ''max_num_outbound_peers = 10'',
            '''',
            ''[instrumentation]'',
            ''prometheus = '' @ fmt_t (Monitoring_Enabled mon),
            ''prometheus_listen_addr = ":'' @ fmt_d (Prometheus_Port (Prometheus mon)) @ ''"''],
         ''chain-id'' \<mapsto> chainId,
         ''network'' \<mapsto> Network (Spec axelarNode)])\<close>

definition keyringPasswordRef :: "AxelarNode \<Rightarrow> EnvVar" where
  "keyringPasswordRef axelarNode =
     \<lparr>EnvVar_Name = ''KEYRING_PASSWORD'', Value = '''',
      ValueFrom = Some \<lparr>SecretKeyRef_Name = Name axelarNode @ ''-secrets'', Key = ''keyring-password''\<rparr>\<rparr>"

definition createValidatorContainers :: "AxelarNode \<Rightarrow> Container list" where
  "createValidatorContainers axelarNode =
    [\<lparr>Container_Name = ''vald'',
      Container_Image = Repository (Image (Spec axelarNode)) @ '':'' @ Tag (Image (Spec axelarNode)),
      ImagePullPolicy = '''',
      Command = [''sh'', ''-c'', ''sleep 60 && exec vald-start''],
      Args = [],
      Env = [\<lparr>EnvVar_Name = ''HOME'', Value = ''/home/axelard'', ValueFrom = None\<rparr>,
             keyringPasswordRef axelarNode],
      Container_Ports = [],
      Container_Resources = None,
      VolumeMounts = [\<lparr>VolumeMount_Name = ''data'', MountPath = ''/home/axelard/.axelar''\<rparr>,
                      \<lparr>VolumeMount_Name = ''shared'', MountPath = ''/home/axelard/shared''\<rparr>],
      LivenessProbe = None,
      ReadinessProbe = None\<rparr>,
     \<lparr>Container_Name = ''tofnd'',
      Container_Image = ''axelarnet/tofnd:v0.10.1'',
      ImagePullPolicy = '''',
      Command = [''tofnd''],
      Args = [''-m'', ''/home/axelard/shared/tofnd.txt'', ''-d'', ''/home/axelard/.tofnd''],
      Env = [\<lparr>EnvVar_Name = ''TOFND_PASSWORD'', Value = '''',
              ValueFrom = Some \<lparr>SecretKeyRef_Name = Name axelarNode @ ''-secrets'', Key = ''tofnd-password''\<rparr>\<rparr>],
      Container_Ports = [\<lparr>ContainerPort_Name = ''tofnd'', ContainerPort = 50051\<rparr>],
      Container_Resources = None,
      VolumeMounts = [\<lparr>VolumeMount_Name = ''shared'', MountPath = ''/home/axelard/shared''\<rparr>],
      LivenessProbe = None,
      ReadinessProbe = None\<rparr>]"

definition validatorEnabled :: "AxelarNode \<Rightarrow> bool" where
  \<comment> \<open>the test \<open>axelarNode.Spec.Validator != nil && axelarNode.Spec.Validator.Enabled\<close>\<close>
  "validatorEnabled axelarNode =
     (case Validator (Spec axelarNode) of None \<Rightarrow> False | Some v \<Rightarrow> Validator_Enabled v)"

definition primaryContainer :: "AxelarNode \<Rightarrow> Container" where
  \<comment> \<open>the one element of the slice literal that \<open>createPodSpec\<close> starts from\<close>
  "primaryContainer axelarNode =
    (let spec = Spec axelarNode; net = Networking spec;
         promPort = Prometheus_Port (Prometheus (Monitoring spec))
     in \<lparr>Container_Name = ''axelar-node'',
         Container_Image = Repository (Image spec) @ '':'' @ Tag (Image spec),
         ImagePullPolicy = PullPolicy (Image spec),
         Command = [''startNodeProc''],
         Args = [],
         Env = [\<lparr>EnvVar_Name = ''HOME'', Value = ''/home/axelard'', ValueFrom = None\<rparr>,
                \<lparr>EnvVar_Name = ''START_REST'', Value = ''true'', ValueFrom = None\<rparr>,
                \<lparr>EnvVar_Name = ''NODE_MONIKER'', Value = Moniker spec, ValueFrom = None\<rparr>,
                keyringPasswordRef axelarNode],
         Container_Ports =
           [\<lparr>ContainerPort_Name = ''rpc'', ContainerPort = RPC_Port (RPC net)\<rparr>,
            \<lparr>ContainerPort_Name = ''p2p'', ContainerPort = P2P_Port (P2P net)\<rparr>,
            \<lparr>ContainerPort_Name = ''api'', ContainerPort = API_Port (API net)\<rparr>,
            \<lparr>ContainerPort_Name = ''prometheus'', ContainerPort = promPort\<rparr>],
         Container_Resources = Some (Resources spec),
         VolumeMounts = [\<lparr>VolumeMount_Name = ''data'', MountPath = ''/home/axelard/.axelar''\<rparr>,
                         \<lparr>VolumeMount_Name = ''shared'', MountPath = ''/home/axelard/shared''\<rparr>,
                         \<lparr>VolumeMount_Name = ''config'', MountPath = ''/home/axelard/config''\<rparr>],
         LivenessProbe = Some \<lparr>HTTPGet_Path = ''/health'', HTTPGet_Port = promPort,
                                InitialDelaySeconds = 120, PeriodSeconds = 30\<rparr>,
         ReadinessProbe = Some \<lparr>HTTPGet_Path = ''/health'', HTTPGet_Port = promPort,
                                 InitialDelaySeconds = 60, PeriodSeconds = 10\<rparr>\<rparr>)"

definition createPodSpec :: "AxelarNode \<Rightarrow> PodSpec" where
  "createPodSpec axelarNode =
    (let containers = [primaryContainer axelarNode];
         containers = (if validatorEnabled axelarNode
                       then containers @ createValidatorContainers axelarNode
                       else containers)
     in \<lparr>Containers = containers,
         Volumes = [\<lparr>Volume_Name = ''data'',
                      VolumeSource = PersistentVolumeClaimSource (Name axelarNode @ ''-data'')\<rparr>,
                    \<lparr>Volume_Name = ''shared'',
                      VolumeSource = PersistentVolumeClaimSource (Name axelarNode @ ''-shared'')\<rparr>,
                    \<lparr>Volume_Name = ''config'',
                      VolumeSource = ConfigMapSource (Name axelarNode @ ''-config'')\<rparr>],
         SecurityContext = Security_PodSecurityContext (Security (Spec axelarNode))\<rparr>)"

definition prometheusAnnotations :: "AxelarNode \<Rightarrow> (string \<rightharpoonup> string)" where
  \<comment> \<open>the annotation literal shared by the service and the pod template\<close>
  "prometheusAnnotations axelarNode =
     [''prometheus.io/scrape'' \<mapsto> ''true'',
      ''prometheus.io/port'' \<mapsto> fmt_d (Prometheus_Port (Prometheus (Monitoring (Spec axelarNode)))),
      ''prometheus.io/path'' \<mapsto> Prometheus_Path (Prometheus (Monitoring (Spec axelarNode)))]"

definition createDeployment :: "AxelarNode \<Rightarrow> Deployment" where
  "createDeployment axelarNode =
    (let replicas = (1::int)
     in ObjectMeta.extend (mkMeta (Name axelarNode) (Namespace axelarNode))
          (Deployment.fields
            \<lparr>Replicas = Some replicas,
             Strategy_Type = RecreateDeploymentStrategyType,
             MatchLabels = [''app'' \<mapsto> Name axelarNode],
             Template_Labels = [''app'' \<mapsto> Name axelarNode],
             Template_Annotations = prometheusAnnotations axelarNode,
             Template_Spec = createPodSpec axelarNode\<rparr>
            \<lparr>Status_Replicas = 0, ReadyReplicas = 0\<rparr>))"

section \<open>The cluster and the client\<close>

text \<open>
  Every outcome of the Go code that is not a plain return is an \<open>error\<close> value: the
  API errors the code distinguishes (not found) or passes on, and \<open>Panic\<close> for a run-time
  panic (\<open>resource.MustParse\<close> on a malformed quantity, an index out of range).
\<close>

datatype error = ErrNotFound | ErrAlreadyExists | ErrConflict | ErrOther | Panic

text \<open>\<open>types.NamespacedName\<close>: namespace first, then name.\<close>

type_synonym NamespacedName = "string \<times> string"

datatype kind = KAxelarNode | KConfigMap | KSecret | KPersistentVolumeClaim | KService | KDeployment

datatype verb = Create | Update | StatusUpdate

type_synonym write_call = "verb \<times> kind \<times> NamespacedName"

text \<open>
  The state one reconciliation runs against: the object stores of the platform, by kind;
  \<open>faults\<close>, the outcome the platform has in store for each coming client call in order
  (\<open>Some e\<close>: the call fails with \<open>e\<close> and changes nothing; \<open>None\<close>, or no entry: the call
  is carried out); \<open>writes\<close>, the log of the write calls issued so far, failed ones
  included; and \<open>now\<close>, the reading of the clock. One reconciliation runs alone: what
  the platform does between passes (filling in the deployment status, collecting owned
  objects, removing a resource whose last finalizer is gone) is a change of the cluster
  a pass starts from.
\<close>

record cluster =
  axelarNodes :: "NamespacedName \<rightharpoonup> AxelarNode"
  configMaps :: "NamespacedName \<rightharpoonup> ConfigMap"
  secrets :: "NamespacedName \<rightharpoonup> Secret"
  persistentVolumeClaims :: "NamespacedName \<rightharpoonup> PersistentVolumeClaim"
  services :: "NamespacedName \<rightharpoonup> Service"
  deployments :: "NamespacedName \<rightharpoonup> Deployment"
  faults :: "error option list"
  writes :: "write_call list"
  now :: nat

definition next_fault :: "cluster \<Rightarrow> error option \<times> cluster" where
  "next_fault c = (case faults c of [] \<Rightarrow> (None, c) | f # fs \<Rightarrow> (f, c\<lparr>faults := fs\<rparr>))"

definition log_write :: "write_call \<Rightarrow> cluster \<Rightarrow> cluster" where
  "log_write w c = c\<lparr>writes := writes c @ [w]\<rparr>"

definition objKey :: "'a ObjectMeta_scheme \<Rightarrow> NamespacedName" where
  "objKey obj = (Namespace obj, Name obj)"

text \<open>\<open>client.Get\<close>: the stored object, or not-found, or the fault in store.\<close>

definition api_Get ::
  "(cluster \<Rightarrow> NamespacedName \<rightharpoonup> 'a) \<Rightarrow> NamespacedName \<Rightarrow> cluster \<Rightarrow> (error + 'a) \<times> cluster" where
  "api_Get store key c =
     (case next_fault c of
        (Some err, c') \<Rightarrow> (Inl err, c')
      | (None, c') \<Rightarrow> (case store c' key of None \<Rightarrow> (Inl ErrNotFound, c') | Some obj \<Rightarrow> (Inr obj, c')))"

text \<open>\<open>client.Create\<close>: stores the object under its own name unless one is there already.\<close>

definition api_Create ::
  "kind \<Rightarrow> (cluster \<Rightarrow> NamespacedName \<rightharpoonup> 'a ObjectMeta_scheme) \<Rightarrow>
   (((NamespacedName \<rightharpoonup> 'a ObjectMeta_scheme) \<Rightarrow> (NamespacedName \<rightharpoonup> 'a ObjectMeta_scheme)) \<Rightarrow> cluster \<Rightarrow> cluster) \<Rightarrow>
   'a ObjectMeta_scheme \<Rightarrow> cluster \<Rightarrow> error option \<times> cluster" where
  "api_Create k store store_update obj c =
     (case next_fault (log_write (Create, k, objKey obj) c) of
        (Some err, c') \<Rightarrow> (Some err, c')
      | (None, c') \<Rightarrow>
          (case store c' (objKey obj) of
             Some old \<Rightarrow> (Some ErrAlreadyExists, c')
           | None \<Rightarrow> (None, store_update (\<lambda>m. m(objKey obj \<mapsto> obj)) c')))"

text \<open>\<open>client.Update\<close>: replaces the stored object of that name, which must exist.\<close>

definition api_Update ::
  "kind \<Rightarrow> (cluster \<Rightarrow> NamespacedName \<rightharpoonup> 'a ObjectMeta_scheme) \<Rightarrow>
   (((NamespacedName \<rightharpoonup> 'a ObjectMeta_scheme) \<Rightarrow> (NamespacedName \<rightharpoonup> 'a ObjectMeta_scheme)) \<Rightarrow> cluster \<Rightarrow> cluster) \<Rightarrow>
   'a ObjectMeta_scheme \<Rightarrow> cluster \<Rightarrow> error option \<times> cluster" where
  "api_Update k store store_update obj c =
     (case next_fault (log_write (Update, k, objKey obj) c) of
        (Some err, c') \<Rightarrow> (Some err, c')
      | (None, c') \<Rightarrow>
          (case store c' (objKey obj) of
             None \<Rightarrow> (Some ErrNotFound, c')
           | Some old \<Rightarrow> (None, store_update (\<lambda>m. m(objKey obj \<mapsto> obj)) c')))"

text \<open>
  The AxelarNode type declares a status subresource
  (\<open>+kubebuilder:subresource:status\<close>): \<open>Update\<close> stores everything but the status,
  and \<open>Status().Update\<close> stores the status and nothing else.
\<close>

definition Update_AxelarNode :: "AxelarNode \<Rightarrow> cluster \<Rightarrow> error option \<times> cluster" where
  "Update_AxelarNode obj c =
     (case next_fault (log_write (Update, KAxelarNode, objKey obj) c) of
        (Some err, c') \<Rightarrow> (Some err, c')
      | (None, c') \<Rightarrow>
          (case axelarNodes c' (objKey obj) of
             None \<Rightarrow> (Some ErrNotFound, c')
           | Some old \<Rightarrow>
               (None, c'\<lparr>axelarNodes := (axelarNodes c')(objKey obj \<mapsto> obj\<lparr>Status := Status old\<rparr>)\<rparr>)))"

definition Status_Update :: "AxelarNode \<Rightarrow> cluster \<Rightarrow> error option \<times> cluster" where
  "Status_Update obj c =
     (case next_fault (log_write (StatusUpdate, KAxelarNode, objKey obj) c) of
        (Some err, c') \<Rightarrow> (Some err, c')
      | (None, c') \<Rightarrow>
          (case axelarNodes c' (objKey obj) of
             None \<Rightarrow> (Some ErrNotFound, c')
           | Some old \<Rightarrow>
               (None, c'\<lparr>axelarNodes := (axelarNodes c')(objKey obj \<mapsto> old\<lparr>Status := Status obj\<rparr>)\<rparr>)))"

section \<open>Finalizers (controllerutil)\<close>

definition finalizerName :: string where
  "finalizerName = ''axelarnode.blockchain.axelar.network/finalizer''"

definition ContainsFinalizer :: "'a ObjectMeta_scheme \<Rightarrow> string \<Rightarrow> bool" where
  "ContainsFinalizer obj finalizer = (finalizer \<in> set (Finalizers obj))"

definition AddFinalizer :: "'a ObjectMeta_scheme \<Rightarrow> string \<Rightarrow> 'a ObjectMeta_scheme" where
  "AddFinalizer obj finalizer =
     (if finalizer \<in> set (Finalizers obj) then obj
      else obj\<lparr>Finalizers := Finalizers obj @ [finalizer]\<rparr>)"

definition RemoveFinalizer :: "'a ObjectMeta_scheme \<Rightarrow> string \<Rightarrow> 'a ObjectMeta_scheme" where
  "RemoveFinalizer obj finalizer = obj\<lparr>Finalizers := filter (\<lambda>f. f \<noteq> finalizer) (Finalizers obj)\<rparr>"

section \<open>The reconciler (pkg/controller, AxelarNodeReconciler)\<close>

record Result =
  Requeue :: bool
  RequeueAfter :: nat

text \<open>\<open>ctrl.Result{}\<close>; durations are nanoseconds, as \<open>time.Duration\<close>.\<close>

definition emptyResult :: Result where
  "emptyResult = \<lparr>Requeue = False, RequeueAfter = 0\<rparr>"

definition Minute :: nat where
  "Minute = 60 * 1000000000"

text \<open>Running the next step only when the last one returned no error.\<close>

definition andThen ::
  "error option \<times> cluster \<Rightarrow> (cluster \<Rightarrow> error option \<times> cluster) \<Rightarrow> error option \<times> cluster" where
  "andThen r f = (case r of (Some err, c) \<Rightarrow> (Some err, c) | (None, c) \<Rightarrow> f c)"

definition desiredConfigMap :: "AxelarNode \<Rightarrow> ConfigMap" where
  \<comment> \<open>the object \<open>reconcileConfigMap\<close> builds first, with its controller reference\<close>
  "desiredConfigMap axelarNode =
     SetControllerReference axelarNode
       (ObjectMeta.extend (mkMeta (Name axelarNode @ ''-config'') (Namespace axelarNode))
          (ConfigMap.fields (generateConfigMapData axelarNode)))"

definition reconcileConfigMap :: "AxelarNode \<Rightarrow> cluster \<Rightarrow> error option \<times> cluster" where
  "reconcileConfigMap axelarNode c =
    (let configMap = desiredConfigMap axelarNode
     in case api_Get configMaps (Namespace configMap, Name configMap) c of
          (Inl err, c1) \<Rightarrow>
            if err = ErrNotFound then api_Create KConfigMap configMaps configMaps_update configMap c1
            else (Some err, c1)
        | (Inr found, c1) \<Rightarrow>
            api_Update KConfigMap configMaps configMaps_update
              (found\<lparr>ConfigMap_Data := ConfigMap_Data configMap\<rparr>) c1)"

definition desiredSecret :: "AxelarNode \<Rightarrow> Secret" where
  \<comment> \<open>the object \<open>reconcileSecret\<close> builds first, with its controller reference\<close>
  "desiredSecret axelarNode =
    (let secret = ObjectMeta.extend (mkMeta (Name axelarNode @ ''-secrets'') (Namespace axelarNode))
           (Secret.fields ''Opaque'' [''keyring-password'' \<mapsto> ''default-password-change-me'']);
         secret = (if validatorEnabled axelarNode
                   then secret\<lparr>Secret_Data := (Secret_Data secret)
                                  (''tofnd-password'' \<mapsto> ''default-tofnd-password-change-me'')\<rparr>
                   else secret)
     in SetControllerReference axelarNode secret)"

definition reconcileSecret :: "AxelarNode \<Rightarrow> cluster \<Rightarrow> error option \<times> cluster" where
  "reconcileSecret axelarNode c =
    (let secret = desiredSecret axelarNode
     in case api_Get secrets (Namespace secret, Name secret) c of
          (Inl err, c1) \<Rightarrow>
            if err = ErrNotFound then api_Create KSecret secrets secrets_update secret c1
            else (Some err, c1)
        | (Inr found, c1) \<Rightarrow> (None, c1))"

text \<open>
  \<open>createPVC\<close> calls \<open>resource.MustParse\<close>, which panics on a string that is not a
  quantity. The quantity grammar belongs to the platform's library; the set of strings
  that parse is the parameter \<open>parses\<close>.
\<close>

definition pvcObject :: "AxelarNode \<Rightarrow> string \<Rightarrow> string \<Rightarrow> PersistentVolumeClaim" where
  \<comment> \<open>the claim \<open>createPVC\<close> returns when the size parses\<close>
  "pvcObject axelarNode suffix sizeStr =
    (let pvc = ObjectMeta.extend (mkMeta (Name axelarNode @ ''-'' @ suffix) (Namespace axelarNode))
           (PersistentVolumeClaim.fields [''ReadWriteOnce''] sizeStr None);
         pvc = (if StorageClass (Storage (Spec axelarNode)) \<noteq> ''''
                then pvc\<lparr>StorageClassName := Some (StorageClass (Storage (Spec axelarNode)))\<rparr>
                else pvc)
     in SetControllerReference axelarNode pvc)"

definition createPVC ::
  "(string \<Rightarrow> bool) \<Rightarrow> AxelarNode \<Rightarrow> string \<Rightarrow> string \<Rightarrow> error + PersistentVolumeClaim" where
  "createPVC parses axelarNode suffix sizeStr =
    (if \<not> parses sizeStr then Inl Panic else Inr (pvcObject axelarNode suffix sizeStr))"

definition createOrUpdatePVC :: "PersistentVolumeClaim \<Rightarrow> cluster \<Rightarrow> error option \<times> cluster" where
  "createOrUpdatePVC pvc c =
    (case api_Get persistentVolumeClaims (Namespace pvc, Name pvc) c of
       (Inl err, c1) \<Rightarrow>
         if err = ErrNotFound
         then api_Create KPersistentVolumeClaim persistentVolumeClaims persistentVolumeClaims_update pvc c1
         else (Some err, c1)
     | (Inr found, c1) \<Rightarrow> (None, c1))"

definition reconcilePVC :: "(string \<Rightarrow> bool) \<Rightarrow> AxelarNode \<Rightarrow> cluster \<Rightarrow> error option \<times> cluster" where
  "reconcilePVC parses axelarNode c =
    (case createPVC parses axelarNode ''data'' (Size (Storage (Spec axelarNode))) of
       Inl p \<Rightarrow> (Some p, c)
     | Inr pvc \<Rightarrow>
         andThen (createOrUpdatePVC pvc c)
           (\<lambda>c1. case createPVC parses axelarNode ''shared'' ''10Gi'' of
                    Inl p \<Rightarrow> (Some p, c1)
                  | Inr sharedPVC \<Rightarrow> createOrUpdatePVC sharedPVC c1))"

definition servicePorts :: "AxelarNode \<Rightarrow> ServicePort list" where
  \<comment> \<open>the \<open>Ports\<close> literal of \<open>reconcileService\<close>\<close>
  "servicePorts axelarNode =
    (let net = Networking (Spec axelarNode);
         prom = Prometheus_Port (Prometheus (Monitoring (Spec axelarNode)))
     in [\<lparr>ServicePort_Name = ''rpc'', ServicePort_Port = RPC_Port (RPC net), TargetPort = RPC_Port (RPC net)\<rparr>,
         \<lparr>ServicePort_Name = ''p2p'', ServicePort_Port = P2P_Port (P2P net), TargetPort = P2P_Port (P2P net)\<rparr>,
         \<lparr>ServicePort_Name = ''api'', ServicePort_Port = API_Port (API net), TargetPort = API_Port (API net)\<rparr>,
         \<lparr>ServicePort_Name = ''prometheus'', ServicePort_Port = prom, TargetPort = prom\<rparr>])"

definition desiredService :: "AxelarNode \<Rightarrow> Service" where
  \<comment> \<open>the object \<open>reconcileService\<close> builds first, with its controller reference\<close>
  "desiredService axelarNode =
     SetControllerReference axelarNode
       (ObjectMeta.extend
          ((mkMeta (Name axelarNode @ ''-service'') (Namespace axelarNode))
             \<lparr>Annotations := prometheusAnnotations axelarNode\<rparr>)
          (Service.fields [''app'' \<mapsto> Name axelarNode] (servicePorts axelarNode)))"

definition reconcileService :: "AxelarNode \<Rightarrow> cluster \<Rightarrow> error option \<times> cluster" where
  "reconcileService axelarNode c =
    (let service = desiredService axelarNode
     in case api_Get services (Namespace service, Name service) c of
          (Inl err, c1) \<Rightarrow>
            if err = ErrNotFound then api_Create KService services services_update service c1
            else (Some err, c1)
        | (Inr found, c1) \<Rightarrow>
            api_Update KService services services_update
              (found\<lparr>Service_Ports := Service_Ports service, Annotations := Annotations service\<rparr>) c1)"

text \<open>
  \<open>deploymentEqual\<close> reads \<open>Containers[0]\<close> of both deployments: an empty container list
  is an index out of range.
\<close>

definition deploymentEqual :: "Deployment \<Rightarrow> Deployment \<Rightarrow> error + bool" where
  "deploymentEqual a b =
    (case (Containers (Template_Spec (Deployment_Spec a)), Containers (Template_Spec (Deployment_Spec b))) of
       (x # xs, y # ys) \<Rightarrow> Inr (Container_Image x = Container_Image y)
     | _ \<Rightarrow> Inl Panic)"

definition reconcileDeployment :: "AxelarNode \<Rightarrow> cluster \<Rightarrow> error option \<times> cluster" where
  "reconcileDeployment axelarNode c =
    (let deployment = SetControllerReference axelarNode (createDeployment axelarNode)
     in case api_Get deployments (Namespace deployment, Name deployment) c of
          (Inl err, c1) \<Rightarrow>
            if err = ErrNotFound then api_Create KDeployment deployments deployments_update deployment c1
            else (Some err, c1)
        | (Inr found, c1) \<Rightarrow>
            (case deploymentEqual found deployment of
               Inl p \<Rightarrow> (Some p, c1)
             | Inr eq \<Rightarrow>
                 if \<not> eq
                 then api_Update KDeployment deployments deployments_update
                        (found\<lparr>Deployment_Spec := Deployment_Spec deployment\<rparr>) c1
                 else (None, c1)))"

text \<open>
  \<open>updateStatus\<close> changes the node it is given; the model returns the node as the call
  leaves it, next to the error and the cluster.
\<close>

definition updateStatus :: "AxelarNode \<Rightarrow> cluster \<Rightarrow> error option \<times> AxelarNode \<times> cluster" where
  "updateStatus axelarNode c =
    (case api_Get deployments (Namespace axelarNode, Name axelarNode) c of
       (Inl err, c1) \<Rightarrow> (Some err, axelarNode, c1)
     | (Inr deployment, c1) \<Rightarrow>
         (let phase = (if ReadyReplicas (Deployment_Status deployment) > 0 then ''Running''
                       else if Status_Replicas (Deployment_Status deployment) > 0 then ''Syncing''
                       else ''Pending'');
              axelarNode = axelarNode\<lparr>Status := (Status axelarNode)\<lparr>Phase := phase\<rparr>\<rparr>;
              axelarNode = axelarNode\<lparr>Status := (Status axelarNode)
                \<lparr>SyncInfo := \<lparr>CurrentHeight = 12345, LatestHeight = 12345, CatchingUp = False,
                               LastSyncTime = Some (now c1)\<rparr>\<rparr>\<rparr>;
              axelarNode = axelarNode\<lparr>Status := (Status axelarNode)
                \<lparr>NetworkInfo := \<lparr>Peers = 10, NodeID = ''mock-node-id'',
                                  NetworkInfo_Network = Network (Spec axelarNode)\<rparr>\<rparr>\<rparr>;
              (err, c2) = Status_Update axelarNode c1
          in (err, axelarNode, c2)))"

definition handleDeletion :: "AxelarNode \<Rightarrow> cluster \<Rightarrow> Result \<times> error option \<times> cluster" where
  "handleDeletion axelarNode c =
    (let axelarNode = RemoveFinalizer axelarNode finalizerName;
         (err, c1) = Update_AxelarNode axelarNode c
     in (emptyResult, err, c1))"

definition initializePhase :: "AxelarNode \<Rightarrow> cluster \<Rightarrow> error option \<times> AxelarNode \<times> cluster" where
  \<comment> \<open>the block \<open>Update status phase\<close> of \<open>Reconcile\<close>\<close>
  "initializePhase axelarNode c =
    (if Phase (Status axelarNode) = ''''
     then (let axelarNode = axelarNode\<lparr>Status := (Status axelarNode)\<lparr>Phase := ''Initializing''\<rparr>\<rparr>;
               (err, c1) = Status_Update axelarNode c
           in (err, axelarNode, c1))
     else (None, axelarNode, c))"

definition reconcileResources ::
  "(string \<Rightarrow> bool) \<Rightarrow> AxelarNode \<Rightarrow> cluster \<Rightarrow> error option \<times> cluster" where
  \<comment> \<open>the block \<open>Reconcile resources\<close> of \<open>Reconcile\<close>: five steps, left at the first error\<close>
  "reconcileResources parses axelarNode c =
     andThen (andThen (andThen (andThen
       (reconcileConfigMap axelarNode c)
       (reconcileSecret axelarNode))
       (reconcilePVC parses axelarNode))
       (reconcileService axelarNode))
       (reconcileDeployment axelarNode)"

definition Reconcile ::
  "(string \<Rightarrow> bool) \<Rightarrow> NamespacedName \<Rightarrow> cluster \<Rightarrow> Result \<times> error option \<times> cluster" where
  "Reconcile parses req c =
    (case api_Get axelarNodes req c of
       (Inl err, c1) \<Rightarrow>
         if err = ErrNotFound then (emptyResult, None, c1) else (emptyResult, Some err, c1)
     | (Inr axelarNode, c1) \<Rightarrow>
         if DeletionTimestamp axelarNode \<noteq> None then handleDeletion axelarNode c1
         else if \<not> ContainsFinalizer axelarNode finalizerName
         then (let axelarNode = AddFinalizer axelarNode finalizerName;
                   (err, c2) = Update_AxelarNode axelarNode c1
               in (emptyResult, err, c2))
         else
           (case initializePhase axelarNode c1 of
              (Some err, axelarNode, c2) \<Rightarrow> (emptyResult, Some err, c2)
            | (None, axelarNode, c2) \<Rightarrow>
                (case reconcileResources parses axelarNode c2 of
                   (Some err, c3) \<Rightarrow> (emptyResult, Some err, c3)
                 | (None, c3) \<Rightarrow>
                     (case updateStatus axelarNode c3 of
                        (Some err, axelarNode, c4) \<Rightarrow> (emptyResult, Some err, c4)
                      | (None, axelarNode, c4) \<Rightarrow>
                          (\<lparr>Requeue = False, RequeueAfter = Minute * 5\<rparr>, None, c4)))))"

section \<open>The work queue (SetupWithManager)\<close>


section \<open>Example resources and clusters\<close>

text \<open>The spec a resource gets from the schema's defaults: an observer on the testnet.\<close>

definition defaultSpec :: AxelarNodeSpec where
  "defaultSpec =
    \<lparr>NodeType = ''observer'', Network = ''testnet'', Moniker = ''axelar-k8s-node'',
     Image = \<lparr>Repository = ''axelarnet/axelar-core'', Tag = ''v0.35.5'', PullPolicy = ''IfNotPresent''\<rparr>,
     Resources = \<lparr>Limits = Map.empty, Requests = Map.empty\<rparr>,
     Storage = \<lparr>Size = ''500Gi'', StorageClass = ''standard'',
                Backup = \<lparr>Backup_Enabled = False, Schedule = ''0 2 * * *'', Retention = ''7d''\<rparr>\<rparr>,
     Validator = None,
     Networking =
       \<lparr>P2P = \<lparr>P2P_Port = 26656, ExternalAddress = '''', PersistentPeers = [], Seeds = []\<rparr>,
        RPC = \<lparr>RPC_Enabled = True, RPC_Port = 26657, CORS = False\<rparr>,
        API = \<lparr>API_Enabled = True, API_Port = 1317\<rparr>\<rparr>,
     Monitoring =
       \<lparr>Monitoring_Enabled = True,
        Prometheus = \<lparr>Prometheus_Port = 26660, Prometheus_Path = ''/metrics''\<rparr>,
        Alerts = \<lparr>Alerts_Enabled = True, Slack = \<lparr>Webhook = '''', Channel = ''''\<rparr>\<rparr>\<rparr>,
     Upgrade = \<lparr>Strategy = ''rolling'', AutoUpgrade = False, PreUpgradeBackup = True,
                RollbackOnFailure = True\<rparr>,
     Security = \<lparr>Security_PodSecurityContext = None, NetworkPolicies = True,
                 SecretManagement = \<lparr>Provider = ''kubernetes'', SecretManagement_AutoRotation = False\<rparr>\<rparr>\<rparr>"

definition enabledValidator :: ValidatorSpec where
  "enabledValidator =
    \<lparr>Validator_Enabled = True,
     KeyManagement = \<lparr>KeyManagement_AutoRotation = False, RotationSchedule = ''0 0 1 * *'', BackupKeys = True\<rparr>,
     Slashing = \<lparr>Protection = True, MaxMissedBlocks = 50\<rparr>\<rparr>"

definition emptyStatus :: AxelarNodeStatus where
  "emptyStatus =
    \<lparr>Phase = '''', Conditions = [],
     SyncInfo = \<lparr>CurrentHeight = 0, LatestHeight = 0, CatchingUp = False, LastSyncTime = None\<rparr>,
     NetworkInfo = \<lparr>Peers = 0, NodeID = '''', NetworkInfo_Network = ''''\<rparr>,
     ValidatorInfo = None, LastBackup = None, LastUpgrade = None\<rparr>"

definition mkNode :: "string \<Rightarrow> string list \<Rightarrow> AxelarNodeSpec \<Rightarrow> AxelarNodeStatus \<Rightarrow> AxelarNode" where
  "mkNode n fs sp st =
     ObjectMeta.extend ((mkMeta n ''axelar'')\<lparr>Finalizers := fs\<rparr>) (AxelarNode.fields sp st)"

definition observerNode :: AxelarNode where
  "observerNode = mkNode ''obs'' [] defaultSpec emptyStatus"

definition validatorNode :: AxelarNode where
  "validatorNode =
     mkNode ''val'' [] (defaultSpec\<lparr>NodeType := ''validator'', Validator := Some enabledValidator\<rparr>) emptyStatus"

text \<open>An observer whose spec also carries an enabled validator sub-spec.\<close>

definition observerWithSidecars :: AxelarNode where
  "observerWithSidecars =
     mkNode ''obs'' [] (defaultSpec\<lparr>Validator := Some enabledValidator\<rparr>) emptyStatus"

definition parsesExample :: "string \<Rightarrow> bool" where
  \<comment> \<open>the quantities of the examples, both well-formed\<close>
  "parsesExample s = (s = ''500Gi'' \<or> s = ''10Gi'')"

definition emptyCluster :: cluster where
  "emptyCluster =
    \<lparr>axelarNodes = Map.empty, configMaps = Map.empty, secrets = Map.empty,
     persistentVolumeClaims = Map.empty, services = Map.empty, deployments = Map.empty,
     faults = [], writes = [], now = 1000\<rparr>"

text \<open>A resource that has just been created: no finalizer, empty status, nothing else stored.\<close>

definition freshCluster :: cluster where
  "freshCluster = emptyCluster\<lparr>axelarNodes := [(''axelar'', ''obs'') \<mapsto> observerNode]\<rparr>"

definition runningStatus :: AxelarNodeStatus where
  "runningStatus =
     emptyStatus\<lparr>Phase := ''Running'',
       SyncInfo := \<lparr>CurrentHeight = 100, LatestHeight = 100, CatchingUp = False, LastSyncTime = Some 900\<rparr>,
       NetworkInfo := \<lparr>Peers = 7, NodeID = ''node-1'', NetworkInfo_Network = ''testnet''\<rparr>\<rparr>"

text \<open>An observer with its finalizer, whose status a refresh has filled in before.\<close>

definition runningObserver :: AxelarNode where
  "runningObserver = mkNode ''obs'' [finalizerName] defaultSpec runningStatus"

text \<open>A validator with its finalizer and a status that has not been refreshed yet.\<close>

definition pendingValidator :: AxelarNode where
  "pendingValidator =
     mkNode ''val'' [finalizerName]
       (defaultSpec\<lparr>NodeType := ''validator'', Validator := Some enabledValidator\<rparr>)
       (emptyStatus\<lparr>Phase := ''Initializing''\<rparr>)"

definition deploymentWith :: "AxelarNode \<Rightarrow> int \<Rightarrow> int \<Rightarrow> Deployment" where
  \<comment> \<open>the generated deployment, reporting the given replica and ready-replica counts\<close>
  "deploymentWith a replicas ready =
     (SetControllerReference a (createDeployment a))
       \<lparr>Deployment_Status := \<lparr>Status_Replicas = replicas, ReadyReplicas = ready\<rparr>\<rparr>"

text \<open>
  A cluster in which every dependent object of the resource exists and equals what the
  generators produce (the deployment up to its status, which the platform writes).
\<close>

definition convergedClusterOf :: "AxelarNode \<Rightarrow> int \<Rightarrow> int \<Rightarrow> cluster" where
  "convergedClusterOf a replicas ready =
     emptyCluster
       \<lparr>axelarNodes := [objKey a \<mapsto> a],
        configMaps := [objKey (desiredConfigMap a) \<mapsto> desiredConfigMap a],
        secrets := [objKey (desiredSecret a) \<mapsto> desiredSecret a],
        persistentVolumeClaims :=
          [objKey (pvcObject a ''data'' (Size (Storage (Spec a)))) \<mapsto> pvcObject a ''data'' (Size (Storage (Spec a))),
           objKey (pvcObject a ''shared'' ''10Gi'') \<mapsto> pvcObject a ''shared'' ''10Gi''],
        services := [objKey (desiredService a) \<mapsto> desiredService a],
        deployments := [objKey a \<mapsto> deploymentWith a replicas ready]\<rparr>"

definition convergedCluster :: cluster where
  "convergedCluster = convergedClusterOf runningObserver 1 1"

text \<open>The same cluster, with a platform that fails the tenth client call to come.\<close>

definition pollFailureCluster :: cluster where
  "pollFailureCluster =
     convergedCluster\<lparr>faults := [None, None, None, None, None, None, None, None, None, Some ErrOther]\<rparr>"

section \<open>Convergence\<close>

definition converged :: "(string \<Rightarrow> bool) \<Rightarrow> AxelarNode \<Rightarrow> cluster \<Rightarrow> bool" where
  "converged parses a c \<longleftrightarrow>
     axelarNodes c (objKey a) = Some a \<and> DeletionTimestamp a = None \<and>
     ContainsFinalizer a finalizerName \<and> Phase (Status a) \<noteq> '''' \<and>
     configMaps c (objKey (desiredConfigMap a)) = Some (desiredConfigMap a) \<and>
     secrets c (objKey (desiredSecret a)) = Some (desiredSecret a) \<and>
     parses (Size (Storage (Spec a))) \<and> parses ''10Gi'' \<and>
     persistentVolumeClaims c (objKey (pvcObject a ''data'' (Size (Storage (Spec a))))) =
       Some (pvcObject a ''data'' (Size (Storage (Spec a)))) \<and>
     persistentVolumeClaims c (objKey (pvcObject a ''shared'' ''10Gi'')) =
       Some (pvcObject a ''shared'' ''10Gi'') \<and>
     services c (objKey (desiredService a)) = Some (desiredService a) \<and>
     (case deployments c (objKey a) of
        None \<Rightarrow> False
      | Some d \<Rightarrow> d = (SetControllerReference a (createDeployment a))\<lparr>Deployment_Status := Deployment_Status d\<rparr>)"

section \<open>Example clusters for the status refresh\<close>

text \<open>A new observer after its first passes, whose deployment reports one replica, not ready.\<close>

definition newObserver :: AxelarNode where
  "newObserver = mkNode ''obs'' [finalizerName] defaultSpec (emptyStatus\<lparr>Phase := ''Initializing''\<rparr>)"

definition syncingCluster :: cluster where
  "syncingCluster = convergedClusterOf newObserver 1 0"

text \<open>The converged cluster, with a platform that fails the next client call.\<close>

definition unreachableCluster :: cluster where
  "unreachableCluster = convergedCluster\<lparr>faults := [Some ErrOther]\<rparr>"

definition validatorCluster :: cluster where
  "validatorCluster = convergedClusterOf pendingValidator 1 1"

text \<open>The converged cluster after an operator has replaced the keyring passphrase.\<close>

definition rotatedSecret :: Secret where
  "rotatedSecret =
     (desiredSecret runningObserver)\<lparr>Secret_Data := [''keyring-password'' \<mapsto> ''rotated-by-operator'']\<rparr>"

definition rotatedCluster :: cluster where
  "rotatedCluster = convergedCluster\<lparr>secrets := [(''axelar'', ''obs-secrets'') \<mapsto> rotatedSecret]\<rparr>"

section \<open>The client calls\<close>

lemma next_fault_state: "next_fault c = (f, c') \<Longrightarrow> c' = c\<lparr>faults := tl (faults c)\<rparr>"
  by (cases c) (auto simp: next_fault_def split: list.splits)

lemma next_fault_no_faults: "faults c = [] \<Longrightarrow> next_fault c = (None, c)"
  by (simp add: next_fault_def)

lemma api_Get_state: "api_Get store key c = (r, c') \<Longrightarrow> c' = c\<lparr>faults := tl (faults c)\<rparr>"
  by (auto simp: api_Get_def split: prod.splits option.splits dest: next_fault_state)

lemma api_Get_frame:
  assumes "api_Get store key c = (r, c')"
  shows "axelarNodes c' = axelarNodes c \<and> configMaps c' = configMaps c \<and>
         secrets c' = secrets c \<and> persistentVolumeClaims c' = persistentVolumeClaims c \<and>
         services c' = services c \<and> deployments c' = deployments c \<and>
         writes c' = writes c \<and> now c' = now c"
  by (subst (1 2 3 4 5 6 7 8) api_Get_state [OF assms]) simp

lemma api_Get_nodes: "api_Get axelarNodes key c = (Inr x, c') \<Longrightarrow> axelarNodes c key = Some x"
  by (auto simp: api_Get_def split: prod.splits option.splits dest: next_fault_state)

lemma api_Get_secrets: "api_Get secrets key c = (Inr x, c') \<Longrightarrow> secrets c key = Some x"
  by (auto simp: api_Get_def split: prod.splits option.splits dest: next_fault_state)

lemma api_Get_deployments: "api_Get deployments key c = (Inr x, c') \<Longrightarrow> deployments c key = Some x"
  by (auto simp: api_Get_def split: prod.splits option.splits dest: next_fault_state)

lemma Status_Update_frame:
  "Status_Update obj c = (e, c') \<Longrightarrow>
     configMaps c' = configMaps c \<and> secrets c' = secrets c \<and>
     persistentVolumeClaims c' = persistentVolumeClaims c \<and> services c' = services c \<and>
     deployments c' = deployments c \<and> now c' = now c \<and>
     writes c' = writes c @ [(StatusUpdate, KAxelarNode, objKey obj)]"
  by (auto simp: Status_Update_def log_write_def split: prod.splits option.splits
      dest!: next_fault_state)

lemma Status_Update_nodes:
  "Status_Update obj c = (e, c') \<Longrightarrow>
     (e \<noteq> None \<and> axelarNodes c' = axelarNodes c) \<or>
     (e = None \<and> (\<exists>old. axelarNodes c (objKey obj) = Some old \<and>
        axelarNodes c' = (axelarNodes c)(objKey obj \<mapsto> old\<lparr>Status := Status obj\<rparr>)))"
  by (auto simp: Status_Update_def log_write_def split: prod.splits option.splits
      dest!: next_fault_state)

lemma Update_AxelarNode_frame:
  "Update_AxelarNode obj c = (e, c') \<Longrightarrow>
     configMaps c' = configMaps c \<and> secrets c' = secrets c \<and>
     persistentVolumeClaims c' = persistentVolumeClaims c \<and> services c' = services c \<and>
     deployments c' = deployments c \<and> now c' = now c \<and>
     writes c' = writes c @ [(Update, KAxelarNode, objKey obj)]"
  by (auto simp: Update_AxelarNode_def log_write_def split: prod.splits option.splits
      dest!: next_fault_state)

lemma Update_AxelarNode_nodes:
  "Update_AxelarNode obj c = (e, c') \<Longrightarrow>
     (e \<noteq> None \<and> axelarNodes c' = axelarNodes c) \<or>
     (e = None \<and> (\<exists>old. axelarNodes c (objKey obj) = Some old \<and>
        axelarNodes c' = (axelarNodes c)(objKey obj \<mapsto> obj\<lparr>Status := Status old\<rparr>)))"
  by (auto simp: Update_AxelarNode_def log_write_def split: prod.splits option.splits
      dest!: next_fault_state)

section \<open>What each step leaves alone\<close>

lemma reconcileConfigMap_frame:
  "reconcileConfigMap a c = (e, c') \<Longrightarrow>
     axelarNodes c' = axelarNodes c \<and> secrets c' = secrets c \<and>
     persistentVolumeClaims c' = persistentVolumeClaims c \<and> services c' = services c \<and>
     deployments c' = deployments c \<and> now c' = now c"
  by (auto simp: reconcileConfigMap_def api_Create_def api_Update_def log_write_def Let_def
      split: prod.splits option.splits sum.splits if_splits
      dest!: api_Get_state next_fault_state)

lemma reconcileSecret_frame:
  "reconcileSecret a c = (e, c') \<Longrightarrow>
     axelarNodes c' = axelarNodes c \<and> configMaps c' = configMaps c \<and>
     persistentVolumeClaims c' = persistentVolumeClaims c \<and> services c' = services c \<and>
     deployments c' = deployments c \<and> now c' = now c"
  by (auto simp: reconcileSecret_def api_Create_def log_write_def Let_def
      split: prod.splits option.splits sum.splits if_splits
      dest!: api_Get_state next_fault_state)

lemma reconcileSecret_keeps:
  "reconcileSecret a c = (e, c') \<Longrightarrow> secrets c k = Some s \<Longrightarrow> secrets c' k = Some s"
  by (auto simp: reconcileSecret_def api_Create_def log_write_def Let_def
      split: prod.splits option.splits sum.splits if_splits
      dest!: api_Get_state next_fault_state)

lemma createOrUpdatePVC_frame:
  "createOrUpdatePVC pvc c = (e, c') \<Longrightarrow>
     axelarNodes c' = axelarNodes c \<and> configMaps c' = configMaps c \<and> secrets c' = secrets c \<and>
     services c' = services c \<and> deployments c' = deployments c \<and> now c' = now c"
  by (auto simp: createOrUpdatePVC_def api_Create_def log_write_def Let_def
      split: prod.splits option.splits sum.splits if_splits
      dest!: api_Get_state next_fault_state)

lemma andThen_cases:
  "andThen r f = (e, c') \<Longrightarrow>
     (\<exists>x. r = (Some x, c') \<and> e = Some x) \<or> (\<exists>c1. r = (None, c1) \<and> f c1 = (e, c'))"
  by (auto simp: andThen_def split: prod.splits option.splits)

lemma reconcilePVC_frame:
  "reconcilePVC parses a c = (e, c') \<Longrightarrow>
     axelarNodes c' = axelarNodes c \<and> configMaps c' = configMaps c \<and> secrets c' = secrets c \<and>
     services c' = services c \<and> deployments c' = deployments c \<and> now c' = now c"
  by (auto simp: reconcilePVC_def split: sum.splits dest!: andThen_cases createOrUpdatePVC_frame)

lemma reconcileService_frame:
  "reconcileService a c = (e, c') \<Longrightarrow>
     axelarNodes c' = axelarNodes c \<and> configMaps c' = configMaps c \<and> secrets c' = secrets c \<and>
     persistentVolumeClaims c' = persistentVolumeClaims c \<and>
     deployments c' = deployments c \<and> now c' = now c"
  by (auto simp: reconcileService_def api_Create_def api_Update_def log_write_def Let_def
      split: prod.splits option.splits sum.splits if_splits
      dest!: api_Get_state next_fault_state)

lemma reconcileDeployment_frame:
  "reconcileDeployment a c = (e, c') \<Longrightarrow>
     axelarNodes c' = axelarNodes c \<and> configMaps c' = configMaps c \<and> secrets c' = secrets c \<and>
     persistentVolumeClaims c' = persistentVolumeClaims c \<and>
     services c' = services c \<and> now c' = now c"
  by (auto simp: reconcileDeployment_def api_Create_def api_Update_def log_write_def Let_def
      split: prod.splits option.splits sum.splits if_splits
      dest!: api_Get_state next_fault_state)

lemma andThen_inv:
  assumes "andThen r f = (e, c')" and "P (snd r)"
    and "\<And>c1 e2 c2. P c1 \<Longrightarrow> f c1 = (e2, c2) \<Longrightarrow> P c2"
  shows "P c'"
proof -
  from andThen_cases [OF assms(1)] show ?thesis
  proof
    assume "\<exists>x. r = (Some x, c') \<and> e = Some x"
    with assms(2) show ?thesis by auto
  next
    assume "\<exists>c1. r = (None, c1) \<and> f c1 = (e, c')"
    then obtain c1 where "r = (None, c1)" and "f c1 = (e, c')" by blast
    with assms(2) assms(3) [of c1 e c'] show ?thesis by simp
  qed
qed

text \<open>A property that each of the five steps keeps is kept by their sequence.\<close>

lemma reconcileResources_inv:
  assumes run: "reconcileResources parses a c = (e, c')" and init: "P c"
    and cm: "\<And>c1 e2 c2. P c1 \<Longrightarrow> reconcileConfigMap a c1 = (e2, c2) \<Longrightarrow> P c2"
    and sec: "\<And>c1 e2 c2. P c1 \<Longrightarrow> reconcileSecret a c1 = (e2, c2) \<Longrightarrow> P c2"
    and pvc: "\<And>c1 e2 c2. P c1 \<Longrightarrow> reconcilePVC parses a c1 = (e2, c2) \<Longrightarrow> P c2"
    and svc: "\<And>c1 e2 c2. P c1 \<Longrightarrow> reconcileService a c1 = (e2, c2) \<Longrightarrow> P c2"
    and dep: "\<And>c1 e2 c2. P c1 \<Longrightarrow> reconcileDeployment a c1 = (e2, c2) \<Longrightarrow> P c2"
  shows "P c'"
proof -
  have 1: "P (snd (reconcileConfigMap a c))"
    using cm [OF init, of "fst (reconcileConfigMap a c)" "snd (reconcileConfigMap a c)"] by simp
  have 2: "P (snd (andThen (reconcileConfigMap a c) (reconcileSecret a)))"
    by (rule andThen_inv [where P = P, OF _ 1 sec]) (rule surjective_pairing)
  have 3: "P (snd (andThen (andThen (reconcileConfigMap a c) (reconcileSecret a))
                     (reconcilePVC parses a)))"
    by (rule andThen_inv [where P = P, OF _ 2 pvc]) (rule surjective_pairing)
  have 4: "P (snd (andThen (andThen (andThen (reconcileConfigMap a c) (reconcileSecret a))
                     (reconcilePVC parses a)) (reconcileService a)))"
    by (rule andThen_inv [where P = P, OF _ 3 svc]) (rule surjective_pairing)
  show ?thesis
    by (rule andThen_inv [where P = P, OF run [unfolded reconcileResources_def] 4 dep])
qed

lemma reconcileResources_frame:
  assumes "reconcileResources parses a c = (e, c')"
  shows "axelarNodes c' = axelarNodes c \<and> now c' = now c \<and>
         (\<forall>k s. secrets c k = Some s \<longrightarrow> secrets c' k = Some s)"
  by (rule reconcileResources_inv [OF assms,
        where P = "\<lambda>x. axelarNodes x = axelarNodes c \<and> now x = now c \<and>
                        (\<forall>k s. secrets c k = Some s \<longrightarrow> secrets x k = Some s)"])
     (auto dest: reconcileConfigMap_frame reconcileSecret_frame reconcileSecret_keeps
        reconcilePVC_frame reconcileService_frame reconcileDeployment_frame)

section \<open>Calls that the platform carries out\<close>

lemma api_Get_ok:
  "faults c = [] \<Longrightarrow> store c key = Some x \<Longrightarrow> api_Get store key c = (Inr x, c)"
  by (simp add: api_Get_def next_fault_def)

lemma api_Get_fault:
  "faults c = Some err # fs \<Longrightarrow> api_Get store key c = (Inl err, c\<lparr>faults := fs\<rparr>)"
  by (simp add: api_Get_def next_fault_def)

lemma Status_Update_ok:
  "faults c = [] \<Longrightarrow> axelarNodes c (objKey obj) = Some old \<Longrightarrow>
     Status_Update obj c =
       (None, c\<lparr>writes := writes c @ [(StatusUpdate, KAxelarNode, objKey obj)],
                 axelarNodes := (axelarNodes c)(objKey obj \<mapsto> old\<lparr>Status := Status obj\<rparr>)\<rparr>)"
  by (simp add: Status_Update_def next_fault_def log_write_def)

lemma Update_AxelarNode_ok:
  "faults c = [] \<Longrightarrow> axelarNodes c (objKey obj) = Some old \<Longrightarrow>
     Update_AxelarNode obj c =
       (None, c\<lparr>writes := writes c @ [(Update, KAxelarNode, objKey obj)],
                 axelarNodes := (axelarNodes c)(objKey obj \<mapsto> obj\<lparr>Status := Status old\<rparr>)\<rparr>)"
  by (simp add: Update_AxelarNode_def next_fault_def log_write_def)

section \<open>The example clusters\<close>

lemma pvcObject_key: "objKey (pvcObject a suffix sz) = (Namespace a, Name a @ ''-'' @ suffix)"
  by (simp add: pvcObject_def objKey_def SetControllerReference_def mkMeta_def ObjectMeta.defs
        PersistentVolumeClaim.defs Let_def)

lemma desired_keys:
  "objKey (desiredConfigMap a) = (Namespace a, Name a @ ''-config'')"
  "objKey (desiredSecret a) = (Namespace a, Name a @ ''-secrets'')"
  "objKey (desiredService a) = (Namespace a, Name a @ ''-service'')"
  "objKey (SetControllerReference a (createDeployment a)) = objKey a"
  by (simp_all add: desiredConfigMap_def desiredSecret_def desiredService_def createDeployment_def
        objKey_def SetControllerReference_def mkMeta_def ObjectMeta.defs ConfigMap.defs Secret.defs
        Service.defs Deployment.defs Let_def)

lemma convergedClusterOf_simps:
  "faults (convergedClusterOf a r rd) = []"
  "writes (convergedClusterOf a r rd) = []"
  "axelarNodes (convergedClusterOf a r rd) (objKey a) = Some a"
  "deployments (convergedClusterOf a r rd) (objKey a) = Some (deploymentWith a r rd)"
  "configMaps (convergedClusterOf a r rd) (objKey (desiredConfigMap a)) = Some (desiredConfigMap a)"
  "secrets (convergedClusterOf a r rd) (objKey (desiredSecret a)) = Some (desiredSecret a)"
  "services (convergedClusterOf a r rd) (objKey (desiredService a)) = Some (desiredService a)"
  by (simp_all add: convergedClusterOf_def emptyCluster_def)

lemma convergedClusterOf_claims:
  "persistentVolumeClaims (convergedClusterOf a r rd) (objKey (pvcObject a ''shared'' ''10Gi'')) =
     Some (pvcObject a ''shared'' ''10Gi'')"
  "persistentVolumeClaims (convergedClusterOf a r rd)
       (objKey (pvcObject a ''data'' (Size (Storage (Spec a))))) =
     Some (pvcObject a ''data'' (Size (Storage (Spec a))))"
  by (simp_all add: convergedClusterOf_def emptyCluster_def pvcObject_key)

lemma deploymentWith_status:
  "Status_Replicas (Deployment_Status (deploymentWith a r rd)) = r"
  "ReadyReplicas (Deployment_Status (deploymentWith a r rd)) = rd"
  by (simp_all add: deploymentWith_def)

lemma mkNode_simps:
  "Name (mkNode n fs sp st) = n" "Namespace (mkNode n fs sp st) = ''axelar''"
  "Finalizers (mkNode n fs sp st) = fs" "DeletionTimestamp (mkNode n fs sp st) = None"
  "Spec (mkNode n fs sp st) = sp" "Status (mkNode n fs sp st) = st"
  "objKey (mkNode n fs sp st) = (''axelar'', n)"
  by (simp_all add: mkNode_def mkMeta_def objKey_def ObjectMeta.defs AxelarNode.defs)

section \<open>Workload generator\<close>

lemma validatorEnabled_iff:
  "validatorEnabled n = (\<exists>v. Validator (Spec n) = Some v \<and> Validator_Enabled v)"
  by (simp add: validatorEnabled_def split: option.splits)

lemma createPodSpec_names:
  "map Container_Name (Containers (createPodSpec n)) =
     (if validatorEnabled n then [''axelar-node'', ''vald'', ''tofnd''] else [''axelar-node''])"
  by (simp add: createPodSpec_def primaryContainer_def createValidatorContainers_def Let_def)

text \<open>
  C1, as the code has it. The number of containers follows the validator sub-spec, not
  the kind: a spec whose validator sub-spec is present and enabled (a validator with
  \<open>validator.enabled = true\<close> in particular) yields exactly the three containers
  axelar-node, vald and tofnd, whatever its kind; a spec whose validator sub-spec is
  absent or not enabled yields exactly the primary container.
\<close>

theorem createPodSpec_container_count:
  "(Validator (Spec n) = Some v \<and> Validator_Enabled v \<longrightarrow>
      length (Containers (createPodSpec n)) = 3 \<and>
      map Container_Name (Containers (createPodSpec n)) = [''axelar-node'', ''vald'', ''tofnd'']) \<and>
   (Validator (Spec n) = None \<or> (Validator (Spec n) = Some v \<and> \<not> Validator_Enabled v) \<longrightarrow>
      length (Containers (createPodSpec n)) = 1 \<and>
      map Container_Name (Containers (createPodSpec n)) = [''axelar-node''])"
proof -
  have len: "length (Containers (createPodSpec n)) = length (map Container_Name (Containers (createPodSpec n)))"
    by simp
  show ?thesis
    unfolding len createPodSpec_names
    by (auto simp: validatorEnabled_iff)
qed

theorem createPodSpec_container_count_witness:
  "NodeType (Spec validatorNode) = ''validator'' \<and>
   length (Containers (createPodSpec validatorNode)) = 3 \<and>
   NodeType (Spec observerNode) = ''observer'' \<and>
   length (Containers (createPodSpec observerNode)) = 1"
  using createPodSpec_container_count [of validatorNode enabledValidator]
        createPodSpec_container_count [of observerNode enabledValidator]
  by (simp add: validatorNode_def observerNode_def mkNode_def mkMeta_def defaultSpec_def
        enabledValidator_def AxelarNode.defs ObjectMeta.defs)

text \<open>
  C1 as stated fails: an observer whose spec carries an enabled validator sub-spec gets
  three containers, not one.
\<close>

theorem observer_three_containers_counterexample:
  "NodeType (Spec observerWithSidecars) = ''observer'' \<and>
   length (Containers (createPodSpec observerWithSidecars)) \<noteq> 1"
  by (simp add: observerWithSidecars_def mkNode_def mkMeta_def defaultSpec_def enabledValidator_def
        AxelarNode.defs ObjectMeta.defs createPodSpec_def validatorEnabled_def
        createValidatorContainers_def Let_def)

text \<open>
  C2. For every resource, whatever its kind and whatever \<open>spec.upgrade.strategy\<close> says,
  the generated deployment asks for exactly one replica and has the Recreate strategy.
\<close>

theorem createDeployment_single_replica_recreate:
  "Replicas (Deployment_Spec (createDeployment n)) = Some 1 \<and>
   Strategy_Type (Deployment_Spec (createDeployment n)) = RecreateDeploymentStrategyType \<and>
   Strategy_Type (Deployment_Spec (createDeployment n)) \<noteq> RollingUpdateDeploymentStrategyType \<and>
   createDeployment (n\<lparr>Spec := (Spec n)\<lparr>Upgrade := u\<rparr>\<rparr>) = createDeployment n"
  by (simp add: createDeployment_def Deployment.defs ObjectMeta.defs Let_def createPodSpec_def
        primaryContainer_def createValidatorContainers_def validatorEnabled_def
        prometheusAnnotations_def keyringPasswordRef_def)

section \<open>Status projector\<close>

lemma updateStatus_get_failed:
  "api_Get deployments (Namespace a, Name a) c = (Inl err, c1) \<Longrightarrow>
     updateStatus a c = (Some err, a, c1)"
  by (simp add: updateStatus_def)

lemma updateStatus_get_ok:
  assumes "api_Get deployments (Namespace a, Name a) c = (Inr d, c1)"
    and "updateStatus a c = (e, a', c')"
  shows "a' = a\<lparr>Status := (Status a)
             \<lparr>Phase := (if ReadyReplicas (Deployment_Status d) > 0 then ''Running''
                        else if Status_Replicas (Deployment_Status d) > 0 then ''Syncing''
                        else ''Pending''),
              SyncInfo := \<lparr>CurrentHeight = 12345, LatestHeight = 12345, CatchingUp = False,
                            LastSyncTime = Some (now c)\<rparr>,
              NetworkInfo := \<lparr>Peers = 10, NodeID = ''mock-node-id'',
                               NetworkInfo_Network = Network (Spec a)\<rparr>\<rparr>\<rparr>"
    and "Status_Update a' c1 = (e, c')"
  using assms api_Get_state [OF assms(1)]
  by (auto simp: updateStatus_def Let_def split: prod.splits)

lemma updateStatus_cases:
  assumes "updateStatus a c = (e, a', c')"
  obtains (poll_failed) err where "api_Get deployments (Namespace a, Name a) c = (Inl err, c')"
      and "e = Some err" and "a' = a"
  | (polled) d c1 where "api_Get deployments (Namespace a, Name a) c = (Inr d, c1)"
      and "Status_Update a' c1 = (e, c')" and "objKey a' = objKey a"
      and "ValidatorInfo (Status a') = ValidatorInfo (Status a)"
proof (cases "api_Get deployments (Namespace a, Name a) c")
  case (Pair r c1)
  show ?thesis
  proof (cases r)
    case (Inl err)
    with Pair have g: "api_Get deployments (Namespace a, Name a) c = (Inl err, c1)" by simp
    from updateStatus_get_failed [OF g] assms have "e = Some err" "a' = a" "c1 = c'"
      by simp_all
    with g show ?thesis by (intro poll_failed [of err]) simp_all
  next
    case (Inr d)
    with Pair have g: "api_Get deployments (Namespace a, Name a) c = (Inr d, c1)" by simp
    note ok = updateStatus_get_ok [OF g assms]
    have "objKey a' = objKey a" "ValidatorInfo (Status a') = ValidatorInfo (Status a)"
      by (subst ok(1), simp add: objKey_def)+
    with ok(2) show ?thesis by (intro polled [OF g])
  qed
qed

lemma Status_Update_stored:
  "Status_Update obj c = (None, c') \<Longrightarrow>
     \<exists>n. axelarNodes c' (objKey obj) = Some n \<and> Status n = Status obj"
  by (auto dest!: Status_Update_nodes)

text \<open>
  C7. The phase the refresh writes is a function of the two replica counts the deployment
  reports: Running with a ready replica, Syncing with replicas but none ready, Pending
  with no replica. (The platform never reports more ready replicas than replicas.) When
  the refresh succeeds, the stored resource carries that phase.
\<close>

theorem updateStatus_phase_from_replica_counts:
  assumes "api_Get deployments (Namespace a, Name a) c = (Inr d, c1)"
    and "ReadyReplicas (Deployment_Status d) \<le> Status_Replicas (Deployment_Status d)"
    and "updateStatus a c = (e, a', c')"
  shows "(ReadyReplicas (Deployment_Status d) > 0 \<longrightarrow> Phase (Status a') = ''Running'') \<and>
         (Status_Replicas (Deployment_Status d) > 0 \<and> ReadyReplicas (Deployment_Status d) = 0 \<longrightarrow>
            Phase (Status a') = ''Syncing'') \<and>
         (Status_Replicas (Deployment_Status d) = 0 \<longrightarrow> Phase (Status a') = ''Pending'') \<and>
         (e = None \<longrightarrow> (\<exists>n. axelarNodes c' (objKey a) = Some n \<and> Phase (Status n) = Phase (Status a')))"
proof -
  note ok = updateStatus_get_ok [OF assms(1) assms(3)]
  have key: "objKey a' = objKey a"
    by (subst ok(1)) (simp add: objKey_def)
  have stored: "e = None \<longrightarrow> (\<exists>n. axelarNodes c' (objKey a) = Some n \<and> Phase (Status n) = Phase (Status a'))"
    using Status_Update_stored [of a' c1 c'] ok(2) key by auto
  have phase: "Phase (Status a') =
      (if ReadyReplicas (Deployment_Status d) > 0 then ''Running''
       else if Status_Replicas (Deployment_Status d) > 0 then ''Syncing'' else ''Pending'')"
    by (subst ok(1)) simp
  from phase assms(2) stored show ?thesis by auto
qed

theorem updateStatus_phase_from_replica_counts_witness:
  "NodeType (Spec newObserver) = ''observer'' \<and>
   deployments syncingCluster (objKey newObserver) = Some (deploymentWith newObserver 1 0) \<and>
   Status_Replicas (Deployment_Status (deploymentWith newObserver 1 0)) = 1 \<and>
   ReadyReplicas (Deployment_Status (deploymentWith newObserver 1 0)) = 0 \<and>
   fst (updateStatus newObserver syncingCluster) = None \<and>
   Phase (Status (fst (snd (updateStatus newObserver syncingCluster)))) = ''Syncing'' \<and>
   (\<exists>n. axelarNodes (snd (snd (updateStatus newObserver syncingCluster))) (objKey newObserver) = Some n \<and>
        Phase (Status n) = ''Syncing'')"
proof -
  let ?d = "deploymentWith newObserver 1 0"
  let ?run = "updateStatus newObserver syncingCluster"
  have stored: "deployments syncingCluster (objKey newObserver) = Some ?d"
    by (simp add: syncingCluster_def convergedClusterOf_simps)
  have get: "api_Get deployments (Namespace newObserver, Name newObserver) syncingCluster =
     (Inr ?d, syncingCluster)"
    using stored
    by (intro api_Get_ok) (simp_all add: syncingCluster_def convergedClusterOf_simps objKey_def)
  have le: "ReadyReplicas (Deployment_Status ?d) \<le> Status_Replicas (Deployment_Status ?d)"
    by (simp add: deploymentWith_status)
  have run: "?run = (fst ?run, fst (snd ?run), snd (snd ?run))"
    by simp
  have "Status_Update (fst (snd ?run)) syncingCluster = (fst ?run, snd (snd ?run))"
    by (rule updateStatus_get_ok(2) [OF get run])
  moreover have "objKey (fst (snd ?run)) = objKey newObserver"
    by (subst updateStatus_get_ok(1) [OF get run]) (simp add: objKey_def)
  ultimately have ok: "fst ?run = None"
    using Status_Update_ok [of syncingCluster "fst (snd ?run)" newObserver]
    by (simp add: syncingCluster_def convergedClusterOf_simps)
  have kind: "NodeType (Spec newObserver) = ''observer''"
    by (simp add: newObserver_def mkNode_simps defaultSpec_def)
  from updateStatus_phase_from_replica_counts [OF get le run]
  show ?thesis
    by (auto simp: deploymentWith_status ok kind stored)
qed

text \<open>
  C9. When the status poll fails (the read of the deployment returns an error), the
  refresh returns that error and touches nothing: the resource in hand keeps its syncInfo
  and networkInfo, and so does every stored resource.
\<close>

theorem failed_status_poll_keeps_last_status:
  assumes "api_Get deployments (Namespace a, Name a) c = (Inl err, c1)"
    and "updateStatus a c = (e, a', c')"
  shows "e = Some err \<and>
         SyncInfo (Status a') = SyncInfo (Status a) \<and>
         NetworkInfo (Status a') = NetworkInfo (Status a) \<and>
         axelarNodes c' = axelarNodes c"
proof -
  from updateStatus_get_failed [OF assms(1)] assms(2)
  have res: "e = Some err" "a' = a" "c' = c1"
    by simp_all
  have "axelarNodes c1 = axelarNodes c"
    by (subst api_Get_state [OF assms(1)]) simp
  with res show ?thesis by simp
qed

theorem failed_status_poll_keeps_last_status_witness:
  "CurrentHeight (SyncInfo (Status runningObserver)) = 100 \<and>
   axelarNodes unreachableCluster (objKey runningObserver) = Some runningObserver \<and>
   fst (updateStatus runningObserver unreachableCluster) = Some ErrOther \<and>
   CurrentHeight (SyncInfo (Status (fst (snd (updateStatus runningObserver unreachableCluster))))) = 100 \<and>
   axelarNodes (snd (snd (updateStatus runningObserver unreachableCluster))) (objKey runningObserver) =
     Some runningObserver"
proof -
  let ?run = "updateStatus runningObserver unreachableCluster"
  have get: "api_Get deployments (Namespace runningObserver, Name runningObserver) unreachableCluster =
     (Inl ErrOther, unreachableCluster\<lparr>faults := []\<rparr>)"
    by (rule api_Get_fault) (simp add: unreachableCluster_def)
  have run: "?run = (fst ?run, fst (snd ?run), snd (snd ?run))"
    by simp
  have height: "CurrentHeight (SyncInfo (Status runningObserver)) = 100"
    by (simp add: runningObserver_def mkNode_simps runningStatus_def)
  have stored: "axelarNodes unreachableCluster (objKey runningObserver) = Some runningObserver"
    by (simp add: unreachableCluster_def convergedCluster_def convergedClusterOf_simps)
  from failed_status_poll_keeps_last_status [OF get run]
  show ?thesis
    by (simp add: height stored)
qed

text \<open>
  C10. Every successful refresh overwrites syncInfo and networkInfo with the same
  placeholders (heights 12345, not catching up, 10 peers, node id mock-node-id), whatever
  the deployment reports and whatever the status held before; only the network name is
  taken from the spec (and the sync time from the clock). The stored resource receives
  that status.
\<close>

theorem successful_refresh_writes_placeholders:
  assumes "updateStatus a c = (None, a', c')"
  shows "SyncInfo (Status a') =
           \<lparr>CurrentHeight = 12345, LatestHeight = 12345, CatchingUp = False,
            LastSyncTime = Some (now c)\<rparr> \<and>
         NetworkInfo (Status a') =
           \<lparr>Peers = 10, NodeID = ''mock-node-id'', NetworkInfo_Network = Network (Spec a)\<rparr> \<and>
         (\<exists>n. axelarNodes c' (objKey a) = Some n \<and> Status n = Status a')"
proof (cases "api_Get deployments (Namespace a, Name a) c")
  case (Pair r c1)
  show ?thesis
  proof (cases r)
    case (Inl err)
    with Pair assms updateStatus_get_failed [of a c err c1] show ?thesis by simp
  next
    case (Inr d)
    with Pair have g: "api_Get deployments (Namespace a, Name a) c = (Inr d, c1)" by simp
    note ok = updateStatus_get_ok [OF g assms]
    have key: "objKey a' = objKey a"
      by (subst ok(1)) (simp add: objKey_def)
    have "SyncInfo (Status a') =
           \<lparr>CurrentHeight = 12345, LatestHeight = 12345, CatchingUp = False,
            LastSyncTime = Some (now c)\<rparr>"
      by (subst ok(1)) simp
    moreover have "NetworkInfo (Status a') =
           \<lparr>Peers = 10, NodeID = ''mock-node-id'', NetworkInfo_Network = Network (Spec a)\<rparr>"
      by (subst ok(1)) simp
    moreover have "\<exists>n. axelarNodes c' (objKey a) = Some n \<and> Status n = Status a'"
      using Status_Update_stored [OF ok(2)] key by simp
    ultimately show ?thesis by simp
  qed
qed

lemma updateStatus_converged_ok:
  "fst (updateStatus a (convergedClusterOf a r rd)) = None"
proof -
  let ?c = "convergedClusterOf a r rd"
  let ?run = "updateStatus a ?c"
  have get: "api_Get deployments (Namespace a, Name a) ?c = (Inr (deploymentWith a r rd), ?c)"
    using convergedClusterOf_simps(4) [of a r rd]
    by (intro api_Get_ok) (simp_all add: convergedClusterOf_simps objKey_def)
  have run: "?run = (fst ?run, fst (snd ?run), snd (snd ?run))"
    by simp
  have "Status_Update (fst (snd ?run)) ?c = (fst ?run, snd (snd ?run))"
    by (rule updateStatus_get_ok(2) [OF get run])
  moreover have "objKey (fst (snd ?run)) = objKey a"
    by (subst updateStatus_get_ok(1) [OF get run]) (simp add: objKey_def)
  ultimately show ?thesis
    using Status_Update_ok [of ?c "fst (snd ?run)" a]
    by (simp add: convergedClusterOf_simps)
qed

theorem successful_refresh_writes_placeholders_witness:
  "CurrentHeight (SyncInfo (Status runningObserver)) = 100 \<and>
   Peers (NetworkInfo (Status runningObserver)) = 7 \<and>
   fst (updateStatus runningObserver convergedCluster) = None \<and>
   (\<exists>n. axelarNodes (snd (snd (updateStatus runningObserver convergedCluster))) (objKey runningObserver) = Some n \<and>
      SyncInfo (Status n) =
        \<lparr>CurrentHeight = 12345, LatestHeight = 12345, CatchingUp = False, LastSyncTime = Some 1000\<rparr> \<and>
      NetworkInfo (Status n) =
        \<lparr>Peers = 10, NodeID = ''mock-node-id'', NetworkInfo_Network = ''testnet''\<rparr>)"
proof -
  let ?run = "updateStatus runningObserver convergedCluster"
  have ok: "fst ?run = None"
    unfolding convergedCluster_def by (rule updateStatus_converged_ok)
  then have run: "?run = (None, fst (snd ?run), snd (snd ?run))"
    by (metis prod.collapse)
  have before: "CurrentHeight (SyncInfo (Status runningObserver)) = 100"
      "Peers (NetworkInfo (Status runningObserver)) = 7"
    by (simp_all add: runningObserver_def mkNode_simps runningStatus_def)
  have env: "now convergedCluster = 1000" "Network (Spec runningObserver) = ''testnet''"
    by (simp_all add: convergedCluster_def convergedClusterOf_def emptyCluster_def
          runningObserver_def mkNode_simps defaultSpec_def)
  from successful_refresh_writes_placeholders [OF run]
  show ?thesis
    by (auto simp: ok before env)
qed

section \<open>The paths through Reconcile\<close>

lemma initializePhase_cases:
  assumes "initializePhase a c = (e, a2, c2)"
  obtains (kept) "Phase (Status a) \<noteq> ''''" and "e = None" and "a2 = a" and "c2 = c"
  | (initialized) "Phase (Status a) = ''''"
      and "a2 = a\<lparr>Status := (Status a)\<lparr>Phase := ''Initializing''\<rparr>\<rparr>"
      and "Status_Update a2 c = (e, c2)"
  using assms
  by (cases "Phase (Status a) = ''''")
     (auto simp: initializePhase_def Let_def split: prod.splits)

lemma initializePhase_node:
  assumes "initializePhase a c = (e, a2, c2)"
  shows "objKey a2 = objKey a" and "ValidatorInfo (Status a2) = ValidatorInfo (Status a)"
    and "Name a2 = Name a" and "Namespace a2 = Namespace a"
  using assms by (cases rule: initializePhase_cases; simp add: objKey_def)+

lemma initializePhase_frame:
  assumes "initializePhase a c = (e, a2, c2)"
  shows "configMaps c2 = configMaps c \<and> secrets c2 = secrets c \<and>
         persistentVolumeClaims c2 = persistentVolumeClaims c \<and> services c2 = services c \<and>
         deployments c2 = deployments c \<and> now c2 = now c"
  using assms by (cases rule: initializePhase_cases) (auto dest: Status_Update_frame)

lemma updateStatus_frame:
  assumes "updateStatus a c = (e, a', c')"
  shows "configMaps c' = configMaps c \<and> secrets c' = secrets c \<and>
         persistentVolumeClaims c' = persistentVolumeClaims c \<and> services c' = services c \<and>
         deployments c' = deployments c \<and> now c' = now c"
  using assms
proof (cases rule: updateStatus_cases)
  case (poll_failed err)
  from api_Get_frame [OF poll_failed(1)] show ?thesis
    by simp
next
  case (polled d c1)
  from api_Get_frame [OF polled(1)] Status_Update_frame [OF polled(2)] show ?thesis
    by simp
qed

lemma Reconcile_cases:
  assumes "Reconcile parses req c = (res, err, c')"
  obtains
    (get_failed) e where "api_Get axelarNodes req c = (Inl e, c')" and "res = emptyResult"
      and "err = (if e = ErrNotFound then None else Some e)"
  | (deletion) a c1 where "api_Get axelarNodes req c = (Inr a, c1)"
      and "DeletionTimestamp a \<noteq> None"
      and "Update_AxelarNode (RemoveFinalizer a finalizerName) c1 = (err, c')"
      and "res = emptyResult"
  | (add_finalizer) a c1 where "api_Get axelarNodes req c = (Inr a, c1)"
      and "DeletionTimestamp a = None" and "\<not> ContainsFinalizer a finalizerName"
      and "Update_AxelarNode (AddFinalizer a finalizerName) c1 = (err, c')"
      and "res = emptyResult"
  | (init_failed) a c1 a2 e where "api_Get axelarNodes req c = (Inr a, c1)"
      and "DeletionTimestamp a = None" and "ContainsFinalizer a finalizerName"
      and "initializePhase a c1 = (Some e, a2, c')" and "err = Some e" and "res = emptyResult"
  | (resources_failed) a c1 a2 c2 e where "api_Get axelarNodes req c = (Inr a, c1)"
      and "DeletionTimestamp a = None" and "ContainsFinalizer a finalizerName"
      and "initializePhase a c1 = (None, a2, c2)"
      and "reconcileResources parses a2 c2 = (Some e, c')" and "err = Some e" and "res = emptyResult"
  | (refreshed) a c1 a2 c2 c3 a3 where "api_Get axelarNodes req c = (Inr a, c1)"
      and "DeletionTimestamp a = None" and "ContainsFinalizer a finalizerName"
      and "initializePhase a c1 = (None, a2, c2)"
      and "reconcileResources parses a2 c2 = (None, c3)"
      and "updateStatus a2 c3 = (err, a3, c')"
      and "res = (if err = None then \<lparr>Requeue = False, RequeueAfter = Minute * 5\<rparr> else emptyResult)"
proof -
  obtain r c1 where g: "api_Get axelarNodes req c = (r, c1)"
    by (cases "api_Get axelarNodes req c")
  show thesis
  proof (cases r)
    case (Inl e)
    with g assms show thesis
      by (intro get_failed [where e = e]) (auto simp: Reconcile_def split: if_splits)
  next
    case (Inr a)
    with g have get: "api_Get axelarNodes req c = (Inr a, c1)" by simp
    show thesis
    proof (cases "DeletionTimestamp a \<noteq> None")
      case True
      with get assms show thesis
        by (intro deletion [OF get])
           (auto simp: Reconcile_def handleDeletion_def Let_def split: prod.splits)
    next
      case nd: False
      show thesis
      proof (cases "ContainsFinalizer a finalizerName")
        case False
        with nd get assms show thesis
          by (intro add_finalizer [OF get])
             (auto simp: Reconcile_def Let_def split: prod.splits)
      next
        case cf: True
        obtain e1 a2 c2 where ini: "initializePhase a c1 = (e1, a2, c2)"
          by (cases "initializePhase a c1")
        show thesis
        proof (cases e1)
          case (Some e)
          with ini nd cf get assms show thesis
            by (intro init_failed [OF get, where ?a2.0 = a2 and e = e]) (auto simp: Reconcile_def)
        next
          case None
          with ini have ini': "initializePhase a c1 = (None, a2, c2)" by simp
          obtain e2 c3 where rr: "reconcileResources parses a2 c2 = (e2, c3)"
            by (cases "reconcileResources parses a2 c2")
          show thesis
          proof (cases e2)
            case (Some e)
            with rr ini' nd cf get assms show thesis
              by (intro resources_failed [OF get _ _ ini', where e = e]) (auto simp: Reconcile_def)
          next
            case None
            with rr have rr': "reconcileResources parses a2 c2 = (None, c3)" by simp
            obtain e3 a3 c4 where us: "updateStatus a2 c3 = (e3, a3, c4)"
              by (cases "updateStatus a2 c3")
            with rr' ini' nd cf get assms show thesis
              by (intro refreshed [OF get _ _ ini' rr', where ?a3.0 = a3])
                 (auto simp: Reconcile_def split: option.splits)
          qed
        qed
      qed
    qed
  qed
qed

lemma Reconcile_keeps_secrets:
  assumes "Reconcile parses req c = (res, err, c')" and "secrets c k = Some s"
  shows "secrets c' k = Some s"
  using assms(1)
proof (cases rule: Reconcile_cases)
  case (get_failed e)
  from api_Get_frame [OF get_failed(1)] assms(2) show ?thesis by simp
next
  case (deletion a c1)
  from api_Get_frame [OF deletion(1)] Update_AxelarNode_frame [OF deletion(3)] assms(2)
  show ?thesis by simp
next
  case (add_finalizer a c1)
  from api_Get_frame [OF add_finalizer(1)] Update_AxelarNode_frame [OF add_finalizer(4)] assms(2)
  show ?thesis by simp
next
  case (init_failed a c1 a2 e)
  from api_Get_frame [OF init_failed(1)] initializePhase_frame [OF init_failed(4)] assms(2)
  show ?thesis by simp
next
  case (resources_failed a c1 a2 c2 e)
  from api_Get_frame [OF resources_failed(1)] initializePhase_frame [OF resources_failed(4)]
    assms(2)
  have "secrets c2 k = Some s" by simp
  with reconcileResources_frame [OF resources_failed(5)] show ?thesis by (cases k) simp
next
  case (refreshed a c1 a2 c2 c3 a3)
  from api_Get_frame [OF refreshed(1)] initializePhase_frame [OF refreshed(4)] assms(2)
  have "secrets c2 k = Some s" by simp
  with reconcileResources_frame [OF refreshed(5)] have "secrets c3 k = Some s" by (cases k) simp
  with updateStatus_frame [OF refreshed(6)] show ?thesis by simp
qed

section \<open>Credentials\<close>

lemma reconcileSecret_found:
  assumes "api_Get secrets (objKey (desiredSecret a)) c = (Inr found, c1)"
  shows "reconcileSecret a c = (None, c1)"
  using assms by (simp add: reconcileSecret_def Let_def objKey_def)

text \<open>
  C6. A secret that exists is never changed: after a whole reconciliation, for any
  request, any spec and any fault of the platform, every secret stored before is stored
  unchanged; \<open>reconcileSecret\<close> itself keeps it, and when its read finds the
  resource's secret it returns at once without issuing a write.
\<close>

theorem existing_secret_never_modified:
  assumes "secrets c k = Some s"
  shows "secrets (snd (snd (Reconcile parses req c))) k = Some s \<and>
         secrets (snd (reconcileSecret a c)) k = Some s \<and>
         (\<forall>found c1. api_Get secrets (objKey (desiredSecret a)) c = (Inr found, c1) \<longrightarrow>
            reconcileSecret a c = (None, c1) \<and> writes c1 = writes c \<and> secrets c1 = secrets c)"
proof -
  have "Reconcile parses req c =
      (fst (Reconcile parses req c), fst (snd (Reconcile parses req c)), snd (snd (Reconcile parses req c)))"
    by simp
  from Reconcile_keeps_secrets [OF this assms]
  have 1: "secrets (snd (snd (Reconcile parses req c))) k = Some s" .
  have "reconcileSecret a c = (fst (reconcileSecret a c), snd (reconcileSecret a c))"
    by simp
  from reconcileSecret_keeps [OF this assms]
  have 2: "secrets (snd (reconcileSecret a c)) k = Some s" .
  have 3: "\<forall>found c1. api_Get secrets (objKey (desiredSecret a)) c = (Inr found, c1) \<longrightarrow>
            reconcileSecret a c = (None, c1) \<and> writes c1 = writes c \<and> secrets c1 = secrets c"
    using reconcileSecret_found api_Get_frame by blast
  from 1 2 3 show ?thesis by blast
qed

theorem existing_secret_never_modified_witness:
  "secrets rotatedCluster (''axelar'', ''obs-secrets'') = Some rotatedSecret \<and>
   Secret_Data rotatedSecret ''keyring-password'' = Some ''rotated-by-operator'' \<and>
   secrets (snd (snd (Reconcile parsesExample (''axelar'', ''obs'') rotatedCluster)))
     (''axelar'', ''obs-secrets'') = Some rotatedSecret"
proof -
  have stored: "secrets rotatedCluster (''axelar'', ''obs-secrets'') = Some rotatedSecret"
    by (simp add: rotatedCluster_def)
  have data: "Secret_Data rotatedSecret ''keyring-password'' = Some ''rotated-by-operator''"
    by (simp add: rotatedSecret_def)
  from existing_secret_never_modified [OF stored, of parsesExample "(''axelar'', ''obs'')" runningObserver]
  show ?thesis
    by (simp add: stored data)
qed

section \<open>Validator information\<close>

lemma Update_AxelarNode_validatorInfo:
  assumes "Update_AxelarNode obj c = (e, c')"
  shows "map_option (ValidatorInfo \<circ> Status) (axelarNodes c' k) =
         map_option (ValidatorInfo \<circ> Status) (axelarNodes c k)"
  using Update_AxelarNode_nodes [OF assms] by auto

lemma Status_Update_validatorInfo:
  assumes "Status_Update obj c = (e, c')"
    and "\<And>old. axelarNodes c (objKey obj) = Some old \<Longrightarrow>
           ValidatorInfo (Status old) = ValidatorInfo (Status obj)"
  shows "map_option (ValidatorInfo \<circ> Status) (axelarNodes c' k) =
         map_option (ValidatorInfo \<circ> Status) (axelarNodes c k)"
  using Status_Update_nodes [OF assms(1)] assms(2) by auto

lemma initializePhase_validatorInfo:
  assumes "initializePhase a c = (e, a2, c2)"
    and "\<And>old. axelarNodes c (objKey a) = Some old \<Longrightarrow>
           ValidatorInfo (Status old) = ValidatorInfo (Status a)"
  shows "map_option (ValidatorInfo \<circ> Status) (axelarNodes c2 k) =
         map_option (ValidatorInfo \<circ> Status) (axelarNodes c k)"
  using assms(1)
proof (cases rule: initializePhase_cases)
  case kept
  then show ?thesis by simp
next
  case initialized
  show ?thesis
    by (rule Status_Update_validatorInfo [OF initialized(3)])
       (simp add: initialized(2) assms(2) objKey_def)
qed

lemma updateStatus_validatorInfo:
  assumes "updateStatus a c = (e, a', c')"
    and "\<And>old. axelarNodes c (objKey a) = Some old \<Longrightarrow>
           ValidatorInfo (Status old) = ValidatorInfo (Status a)"
  shows "map_option (ValidatorInfo \<circ> Status) (axelarNodes c' k) =
         map_option (ValidatorInfo \<circ> Status) (axelarNodes c k)"
  using assms(1)
proof (cases rule: updateStatus_cases)
  case (poll_failed err)
  from api_Get_frame [OF poll_failed(1)] show ?thesis by simp
next
  case (polled d c1)
  have nodes: "axelarNodes c1 = axelarNodes c"
    using api_Get_frame [OF polled(1)] by simp
  have "map_option (ValidatorInfo \<circ> Status) (axelarNodes c' k) =
        map_option (ValidatorInfo \<circ> Status) (axelarNodes c1 k)"
    by (rule Status_Update_validatorInfo [OF polled(2)])
       (simp add: polled(3) polled(4) nodes assms(2))
  with nodes show ?thesis by simp
qed

lemma Reconcile_validatorInfo:
  assumes run: "Reconcile parses req c = (res, err, c')"
    and wf: "\<forall>k n. axelarNodes c k = Some n \<longrightarrow> objKey n = k"
  shows "map_option (ValidatorInfo \<circ> Status) (axelarNodes c' k) =
         map_option (ValidatorInfo \<circ> Status) (axelarNodes c k)"
proof -
  have fetched: "\<And>a c1 old. api_Get axelarNodes req c = (Inr a, c1) \<Longrightarrow>
      axelarNodes c1 (objKey a) = Some old \<Longrightarrow> ValidatorInfo (Status old) = ValidatorInfo (Status a)"
  proof -
    fix a c1 old
    assume g: "api_Get axelarNodes req c = (Inr a, c1)" and o: "axelarNodes c1 (objKey a) = Some old"
    from api_Get_nodes [OF g] wf have "objKey a = req" by blast
    with api_Get_nodes [OF g] api_Get_frame [OF g] o show "ValidatorInfo (Status old) = ValidatorInfo (Status a)"
      by simp
  qed
  from run show ?thesis
  proof (cases rule: Reconcile_cases)
    case (get_failed e)
    from api_Get_frame [OF get_failed(1)] show ?thesis by simp
  next
    case (deletion a c1)
    from api_Get_frame [OF deletion(1)] Update_AxelarNode_validatorInfo [OF deletion(3), of k]
    show ?thesis by simp
  next
    case (add_finalizer a c1)
    from api_Get_frame [OF add_finalizer(1)] Update_AxelarNode_validatorInfo [OF add_finalizer(4), of k]
    show ?thesis by simp
  next
    case (init_failed a c1 a2 e)
    from api_Get_frame [OF init_failed(1)]
      initializePhase_validatorInfo [OF init_failed(4) fetched [OF init_failed(1)], of k]
    show ?thesis by simp
  next
    case (resources_failed a c1 a2 c2 e)
    from api_Get_frame [OF resources_failed(1)]
      initializePhase_validatorInfo [OF resources_failed(4) fetched [OF resources_failed(1)], of k]
      reconcileResources_frame [OF resources_failed(5)]
    show ?thesis by simp
  next
    case (refreshed a c1 a2 c2 c3 a3)
    have vi2: "\<And>k. map_option (ValidatorInfo \<circ> Status) (axelarNodes c2 k) =
        map_option (ValidatorInfo \<circ> Status) (axelarNodes c1 k)"
      by (rule initializePhase_validatorInfo [OF refreshed(4) fetched [OF refreshed(1)]])
    have nodes3: "axelarNodes c3 = axelarNodes c2"
      using reconcileResources_frame [OF refreshed(5)] by simp
    have same: "\<And>old. axelarNodes c3 (objKey a2) = Some old \<Longrightarrow>
        ValidatorInfo (Status old) = ValidatorInfo (Status a2)"
    proof -
      fix old assume o: "axelarNodes c3 (objKey a2) = Some old"
      with nodes3 vi2 [of "objKey a2"] initializePhase_node(1) [OF refreshed(4)]
      obtain old1 where o1: "axelarNodes c1 (objKey a) = Some old1"
        and "ValidatorInfo (Status old) = ValidatorInfo (Status old1)"
        by (cases "axelarNodes c1 (objKey a)") auto
      with fetched [OF refreshed(1) o1] initializePhase_node(2) [OF refreshed(4)]
      show "ValidatorInfo (Status old) = ValidatorInfo (Status a2)" by simp
    qed
    from updateStatus_validatorInfo [OF refreshed(6) same, of k] nodes3 vi2 [of k]
      api_Get_frame [OF refreshed(1)]
    show ?thesis by simp
  qed
qed

text \<open>
  C8, as the code has it. Nothing writes \<open>status.validatorInfo\<close>: the status refresh
  leaves it as it was in the resource it is given, and a whole reconciliation leaves the
  stored value of every resource as it was (on a store that files each resource under its
  own name). A resource created with a null validatorInfo keeps it null, validator or not,
  refreshed or not.
\<close>

theorem validatorInfo_never_written:
  assumes "\<forall>k n. axelarNodes c k = Some n \<longrightarrow> objKey n = k"
  shows "map_option (ValidatorInfo \<circ> Status) (axelarNodes (snd (snd (Reconcile parses req c))) k) =
           map_option (ValidatorInfo \<circ> Status) (axelarNodes c k) \<and>
         ValidatorInfo (Status (fst (snd (updateStatus a c)))) = ValidatorInfo (Status a)"
proof -
  have "Reconcile parses req c =
      (fst (Reconcile parses req c), fst (snd (Reconcile parses req c)), snd (snd (Reconcile parses req c)))"
    by simp
  from Reconcile_validatorInfo [OF this assms]
  have 1: "map_option (ValidatorInfo \<circ> Status) (axelarNodes (snd (snd (Reconcile parses req c))) k) =
           map_option (ValidatorInfo \<circ> Status) (axelarNodes c k)" .
  have "updateStatus a c = (fst (updateStatus a c), fst (snd (updateStatus a c)), snd (snd (updateStatus a c)))"
    by simp
  then have 2: "ValidatorInfo (Status (fst (snd (updateStatus a c)))) = ValidatorInfo (Status a)"
    by (cases rule: updateStatus_cases) simp_all
  from 1 2 show ?thesis ..
qed

lemma validatorCluster_facts:
  "axelarNodes validatorCluster (''axelar'', ''val'') = Some pendingValidator"
  "NodeType (Spec pendingValidator) = ''validator''"
  "ValidatorInfo (Status pendingValidator) = None"
  "objKey pendingValidator = (''axelar'', ''val'')"
  "\<forall>k n. axelarNodes validatorCluster k = Some n \<longrightarrow> objKey n = k"
  by (simp_all add: validatorCluster_def convergedClusterOf_def emptyCluster_def pendingValidator_def
        mkNode_simps emptyStatus_def)

theorem validatorInfo_never_written_witness:
  "NodeType (Spec pendingValidator) = ''validator'' \<and>
   axelarNodes validatorCluster (''axelar'', ''val'') = Some pendingValidator \<and>
   map_option (ValidatorInfo \<circ> Status)
     (axelarNodes (snd (snd (Reconcile parsesExample (''axelar'', ''val'') validatorCluster)))
        (''axelar'', ''val'')) = Some None"
  using validatorInfo_never_written [OF validatorCluster_facts(5), of parsesExample
          "(''axelar'', ''val'')" "(''axelar'', ''val'')" pendingValidator]
  by (simp add: validatorCluster_facts)

text \<open>
  C8 as stated fails: a validator whose status refresh succeeds still has a null
  validatorInfo, in the resource in hand and in the store.
\<close>

theorem validator_refreshed_without_info_counterexample:
  "NodeType (Spec pendingValidator) = ''validator'' \<and>
   fst (updateStatus pendingValidator validatorCluster) = None \<and>
   ValidatorInfo (Status (fst (snd (updateStatus pendingValidator validatorCluster)))) = None \<and>
   map_option (ValidatorInfo \<circ> Status)
     (axelarNodes (snd (snd (updateStatus pendingValidator validatorCluster))) (''axelar'', ''val''))
     = Some None"
proof -
  let ?run = "updateStatus pendingValidator validatorCluster"
  have ok: "fst ?run = None"
    unfolding validatorCluster_def by (rule updateStatus_converged_ok)
  have run: "?run = (fst ?run, fst (snd ?run), snd (snd ?run))"
    by simp
  have same: "\<And>old. axelarNodes validatorCluster (objKey pendingValidator) = Some old \<Longrightarrow>
      ValidatorInfo (Status old) = ValidatorInfo (Status pendingValidator)"
    by (simp add: validatorCluster_facts)
  have mem: "ValidatorInfo (Status (fst (snd ?run))) = None"
    using run by (cases rule: updateStatus_cases) (simp_all add: validatorCluster_facts)
  from updateStatus_validatorInfo [OF run same, of "(''axelar'', ''val'')"]
  have "map_option (ValidatorInfo \<circ> Status) (axelarNodes (snd (snd ?run)) (''axelar'', ''val'')) = Some None"
    by (simp add: validatorCluster_facts)
  with ok mem show ?thesis
    by (simp add: validatorCluster_facts)
qed

section \<open>Finalizer\<close>






text \<open>Without the finalizer, a pass is the write of the resource with the finalizer appended.\<close>

lemma Reconcile_adds_finalizer:
  assumes get: "api_Get axelarNodes req c = (Inr a, c1)"
    and nd: "DeletionTimestamp a = None" and ncf: "\<not> ContainsFinalizer a finalizerName"
  shows "Reconcile parses req c =
           (emptyResult,
            Update_AxelarNode (a\<lparr>Finalizers := Finalizers a @ [finalizerName]\<rparr>) c1)"
  using assms
  by (simp add: Reconcile_def AddFinalizer_def ContainsFinalizer_def Let_def split: prod.splits)




lemma freshCluster_facts:
  "api_Get axelarNodes (''axelar'', ''obs'') freshCluster = (Inr observerNode, freshCluster)"
  "DeletionTimestamp observerNode = None"
  "\<not> ContainsFinalizer observerNode finalizerName"
  "objKey observerNode = (''axelar'', ''obs'')"
  "faults freshCluster = []"
  "writes freshCluster = []"
  "axelarNodes freshCluster (''axelar'', ''obs'') = Some observerNode"
  by (simp_all add: api_Get_def next_fault_def freshCluster_def emptyCluster_def observerNode_def
        mkNode_simps ContainsFinalizer_def)

lemma convergedCluster_facts:
  "api_Get axelarNodes (''axelar'', ''obs'') convergedCluster = (Inr runningObserver, convergedCluster)"
  "DeletionTimestamp runningObserver = None"
  "ContainsFinalizer runningObserver finalizerName"
  "objKey runningObserver = (''axelar'', ''obs'')"
  "axelarNodes convergedCluster (''axelar'', ''obs'') = Some runningObserver"
  "Finalizers runningObserver = [finalizerName]"
  by (simp_all add: api_Get_def next_fault_def convergedCluster_def convergedClusterOf_def
        emptyCluster_def runningObserver_def mkNode_simps ContainsFinalizer_def)


text \<open>
  The first pass over a new resource returns the empty result and no error: the next pass
  comes from the change of the stored resource, not from the result.
\<close>

lemma first_pass_result_is_empty:
  "Requeue (fst (Reconcile parsesExample (''axelar'', ''obs'') freshCluster)) = False \<and>
   RequeueAfter (fst (Reconcile parsesExample (''axelar'', ''obs'') freshCluster)) = 0 \<and>
   fst (snd (Reconcile parsesExample (''axelar'', ''obs'') freshCluster)) = None"
proof -
  have "fst (Update_AxelarNode (observerNode\<lparr>Finalizers := Finalizers observerNode @ [finalizerName]\<rparr>)
          freshCluster) = None"
    by (subst Update_AxelarNode_ok [where old = observerNode])
       (simp_all add: freshCluster_facts objKey_def [of "observerNode\<lparr>Finalizers := _\<rparr>"]
          freshCluster_facts(4) [unfolded objKey_def])
  with Reconcile_adds_finalizer [OF freshCluster_facts(1) freshCluster_facts(2) freshCluster_facts(3),
        of parsesExample]
  show ?thesis
    by (simp add: emptyResult_def)
qed

section \<open>A pass over a converged resource\<close>

lemma log_write_simps:
  "faults (log_write w c) = faults c" "writes (log_write w c) = writes c @ [w]"
  "axelarNodes (log_write w c) = axelarNodes c" "configMaps (log_write w c) = configMaps c"
  "secrets (log_write w c) = secrets c"
  "persistentVolumeClaims (log_write w c) = persistentVolumeClaims c"
  "services (log_write w c) = services c" "deployments (log_write w c) = deployments c"
  "now (log_write w c) = now c"
  by (simp_all add: log_write_def)

lemma reconcileConfigMap_converged:
  assumes "faults c = []"
    and "configMaps c (objKey (desiredConfigMap a)) = Some (desiredConfigMap a)"
  shows "reconcileConfigMap a c =
           (None, log_write (Update, KConfigMap, objKey (desiredConfigMap a)) c)"
proof -
  let ?d = "desiredConfigMap a"
  have get: "api_Get configMaps (Namespace ?d, Name ?d) c = (Inr ?d, c)"
    using assms by (intro api_Get_ok) (simp_all add: objKey_def)
  have same: "(configMaps c)(objKey ?d \<mapsto> ?d) = configMaps c"
    using assms(2) by (rule map_upd_triv)
  show ?thesis
    by (simp add: reconcileConfigMap_def Let_def get api_Update_def next_fault_def assms
          log_write_def same)
qed

lemma reconcileSecret_converged:
  assumes "faults c = []"
    and "secrets c (objKey (desiredSecret a)) = Some (desiredSecret a)"
  shows "reconcileSecret a c = (None, c)"
  using assms by (intro reconcileSecret_found api_Get_ok) simp_all

lemma createOrUpdatePVC_converged:
  assumes "faults c = []" and "persistentVolumeClaims c (objKey pvc) = Some pvc"
  shows "createOrUpdatePVC pvc c = (None, c)"
proof -
  have "api_Get persistentVolumeClaims (Namespace pvc, Name pvc) c = (Inr pvc, c)"
    using assms by (intro api_Get_ok) (simp_all add: objKey_def)
  then show ?thesis by (simp add: createOrUpdatePVC_def)
qed

lemma reconcilePVC_converged:
  assumes "faults c = []" and "parses (Size (Storage (Spec a)))" and "parses ''10Gi''"
    and "persistentVolumeClaims c (objKey (pvcObject a ''data'' (Size (Storage (Spec a))))) =
           Some (pvcObject a ''data'' (Size (Storage (Spec a))))"
    and "persistentVolumeClaims c (objKey (pvcObject a ''shared'' ''10Gi'')) =
           Some (pvcObject a ''shared'' ''10Gi'')"
  shows "reconcilePVC parses a c = (None, c)"
  using assms
  by (simp add: reconcilePVC_def createPVC_def andThen_def createOrUpdatePVC_converged)

lemma reconcileService_converged:
  assumes "faults c = []"
    and "services c (objKey (desiredService a)) = Some (desiredService a)"
  shows "reconcileService a c =
           (None, log_write (Update, KService, objKey (desiredService a)) c)"
proof -
  let ?d = "desiredService a"
  have get: "api_Get services (Namespace ?d, Name ?d) c = (Inr ?d, c)"
    using assms by (intro api_Get_ok) (simp_all add: objKey_def)
  have same: "(services c)(objKey ?d \<mapsto> ?d) = services c"
    using assms(2) by (rule map_upd_triv)
  have key: "objKey (?d\<lparr>Service_Ports := Service_Ports ?d, Annotations := Annotations ?d\<rparr>) = objKey ?d"
    by (simp add: objKey_def)
  show ?thesis
    by (simp add: reconcileService_def Let_def get api_Update_def next_fault_def assms
          log_write_def same)
qed

lemma deploymentEqual_same_spec:
  assumes "Deployment_Spec x = Deployment_Spec (SetControllerReference a (createDeployment a))"
  shows "deploymentEqual x (SetControllerReference a (createDeployment a)) = Inr True"
proof -
  have "Containers (Template_Spec (Deployment_Spec (SetControllerReference a (createDeployment a)))) =
          primaryContainer a # (if validatorEnabled a then createValidatorContainers a else [])"
    by (simp add: SetControllerReference_def createDeployment_def createPodSpec_def Let_def
          Deployment.defs ObjectMeta.defs)
  with assms show ?thesis
    by (simp add: deploymentEqual_def)
qed

lemma reconcileDeployment_converged:
  assumes "faults c = []" and "deployments c (objKey a) = Some d"
    and "d = (SetControllerReference a (createDeployment a))\<lparr>Deployment_Status := Deployment_Status d\<rparr>"
  shows "reconcileDeployment a c = (None, c)"
proof -
  let ?g = "SetControllerReference a (createDeployment a)"
  have key: "(Namespace ?g, Name ?g) = objKey a"
    using desired_keys(4) [of a] by (simp add: objKey_def)
  have get: "api_Get deployments (Namespace ?g, Name ?g) c = (Inr d, c)"
    using assms(1) assms(2) by (intro api_Get_ok) (simp_all add: key)
  have "Deployment_Spec d = Deployment_Spec ?g"
    by (subst assms(3)) simp
  then have "deploymentEqual d ?g = Inr True"
    by (rule deploymentEqual_same_spec)
  with get show ?thesis
    by (simp add: reconcileDeployment_def Let_def)
qed

lemma reconcileResources_converged:
  assumes conv: "converged parses a c" and nf: "faults c = []"
  shows "reconcileResources parses a c =
           (None, log_write (Update, KService, objKey (desiredService a))
                    (log_write (Update, KConfigMap, objKey (desiredConfigMap a)) c))"
proof -
  let ?c1 = "log_write (Update, KConfigMap, objKey (desiredConfigMap a)) c"
  let ?c2 = "log_write (Update, KService, objKey (desiredService a)) ?c1"
  obtain d where d: "deployments c (objKey a) = Some d"
      "d = (SetControllerReference a (createDeployment a))\<lparr>Deployment_Status := Deployment_Status d\<rparr>"
    using conv by (auto simp: converged_def split: option.splits)
  have 1: "reconcileConfigMap a c = (None, ?c1)"
    using conv nf by (intro reconcileConfigMap_converged) (simp_all add: converged_def)
  have 2: "reconcileSecret a ?c1 = (None, ?c1)"
    using conv nf by (intro reconcileSecret_converged) (simp_all add: converged_def log_write_simps)
  have 3: "reconcilePVC parses a ?c1 = (None, ?c1)"
    using conv nf by (intro reconcilePVC_converged) (simp_all add: converged_def log_write_simps)
  have 4: "reconcileService a ?c1 = (None, ?c2)"
    using conv nf by (intro reconcileService_converged) (simp_all add: converged_def log_write_simps)
  have 5: "reconcileDeployment a ?c2 = (None, ?c2)"
    using d nf by (intro reconcileDeployment_converged [where d = d]) (simp_all add: log_write_simps)
  show ?thesis
    by (simp add: reconcileResources_def andThen_def 1 2 3 4 5)
qed

text \<open>
  The pass over a converged resource on a platform that carries out every call: three
  write calls, and a store that differs in the status of the resource only.
\<close>

lemma Reconcile_converged:
  assumes conv: "converged parses a c" and nf: "faults c = []"
  shows "\<exists>st. Reconcile parses (objKey a) c =
           (\<lparr>Requeue = False, RequeueAfter = Minute * 5\<rparr>, None,
            c\<lparr>writes := writes c @
                 [(Update, KConfigMap, objKey (desiredConfigMap a)),
                  (Update, KService, objKey (desiredService a)),
                  (StatusUpdate, KAxelarNode, objKey a)],
              axelarNodes := (axelarNodes c)(objKey a \<mapsto> a\<lparr>Status := st\<rparr>)\<rparr>)"
proof -
  let ?c3 = "log_write (Update, KService, objKey (desiredService a))
               (log_write (Update, KConfigMap, objKey (desiredConfigMap a)) c)"
  let ?run = "updateStatus a ?c3"
  from conv have node: "axelarNodes c (objKey a) = Some a" and nd: "DeletionTimestamp a = None"
    and cf: "ContainsFinalizer a finalizerName" and ph: "Phase (Status a) \<noteq> ''''"
    by (simp_all add: converged_def)
  obtain d where d: "deployments c (objKey a) = Some d"
    using conv by (auto simp: converged_def split: option.splits)
  have get: "api_Get axelarNodes (objKey a) c = (Inr a, c)"
    using nf node by (rule api_Get_ok)
  have ini: "initializePhase a c = (None, a, c)"
    using ph by (simp add: initializePhase_def)
  have rr: "reconcileResources parses a c = (None, ?c3)"
    using conv nf by (rule reconcileResources_converged)
  have poll: "api_Get deployments (Namespace a, Name a) ?c3 = (Inr d, ?c3)"
    using nf d by (intro api_Get_ok) (simp_all add: log_write_simps objKey_def)
  define e3 where "e3 = fst ?run"
  define a3 where "a3 = fst (snd ?run)"
  define c4 where "c4 = snd (snd ?run)"
  have run: "?run = (e3, a3, c4)"
    by (simp add: e3_def a3_def c4_def)
  note ok = updateStatus_get_ok [OF poll run]
  have key: "objKey a3 = objKey a"
    by (subst ok(1)) (simp add: objKey_def)
  have upd: "Status_Update a3 ?c3 =
      (None, ?c3\<lparr>writes := writes ?c3 @ [(StatusUpdate, KAxelarNode, objKey a)],
                  axelarNodes := (axelarNodes ?c3)(objKey a \<mapsto> a\<lparr>Status := Status a3\<rparr>)\<rparr>)"
    using Status_Update_ok [of ?c3 a3 a] nf node
    by (simp add: log_write_simps key)
  with ok(2) have e3: "e3 = None"
    and c4: "c4 = ?c3\<lparr>writes := writes ?c3 @ [(StatusUpdate, KAxelarNode, objKey a)],
                  axelarNodes := (axelarNodes ?c3)(objKey a \<mapsto> a\<lparr>Status := Status a3\<rparr>)\<rparr>"
    by simp_all
  have "Reconcile parses (objKey a) c = (\<lparr>Requeue = False, RequeueAfter = Minute * 5\<rparr>, None, c4)"
    using run by (simp add: Reconcile_def get nd cf ini rr e3)
  also have "c4 = c\<lparr>writes := writes c @
                 [(Update, KConfigMap, objKey (desiredConfigMap a)),
                  (Update, KService, objKey (desiredService a)),
                  (StatusUpdate, KAxelarNode, objKey a)],
              axelarNodes := (axelarNodes c)(objKey a \<mapsto> a\<lparr>Status := Status a3\<rparr>)\<rparr>"
    unfolding c4 by (simp add: log_write_def)
  finally show ?thesis ..
qed

lemma converged_convergedClusterOf:
  assumes "DeletionTimestamp a = None" and "ContainsFinalizer a finalizerName"
    and "Phase (Status a) \<noteq> ''''" and "parses (Size (Storage (Spec a)))" and "parses ''10Gi''"
  shows "converged parses a (convergedClusterOf a r rd)"
  using assms
  by (simp add: converged_def convergedClusterOf_simps convergedClusterOf_claims deploymentWith_def)

lemma convergedCluster_converged: "converged parsesExample runningObserver convergedCluster"
  unfolding convergedCluster_def
  by (rule converged_convergedClusterOf [OF convergedCluster_facts(2) convergedCluster_facts(3)])
     (simp_all add: runningObserver_def mkNode_simps runningStatus_def
        emptyStatus_def defaultSpec_def parsesExample_def)

text \<open>
  C4, as the code has it. On a converged resource and a platform that carries out every
  call, a pass creates nothing and skips the deployment update, but it does issue an
  update of the configuration object, an update of the service and an update of the
  status, in this order. The two object updates write back what is stored: configuration,
  credentials, storage claims, service and deployment are the same after the pass. The
  pass returns no error and asks for the next pass in five minutes.
\<close>

theorem converged_pass_still_updates:
  assumes "converged parses a c" and "faults c = []"
  shows "fst (Reconcile parses (objKey a) c) = \<lparr>Requeue = False, RequeueAfter = Minute * 5\<rparr> \<and>
         fst (snd (Reconcile parses (objKey a) c)) = None \<and>
         writes (snd (snd (Reconcile parses (objKey a) c))) =
           writes c @ [(Update, KConfigMap, objKey (desiredConfigMap a)),
                       (Update, KService, objKey (desiredService a)),
                       (StatusUpdate, KAxelarNode, objKey a)] \<and>
         configMaps (snd (snd (Reconcile parses (objKey a) c))) = configMaps c \<and>
         secrets (snd (snd (Reconcile parses (objKey a) c))) = secrets c \<and>
         persistentVolumeClaims (snd (snd (Reconcile parses (objKey a) c))) = persistentVolumeClaims c \<and>
         services (snd (snd (Reconcile parses (objKey a) c))) = services c \<and>
         deployments (snd (snd (Reconcile parses (objKey a) c))) = deployments c"
proof -
  from Reconcile_converged [OF assms] obtain st where
    "Reconcile parses (objKey a) c =
           (\<lparr>Requeue = False, RequeueAfter = Minute * 5\<rparr>, None,
            c\<lparr>writes := writes c @
                 [(Update, KConfigMap, objKey (desiredConfigMap a)),
                  (Update, KService, objKey (desiredService a)),
                  (StatusUpdate, KAxelarNode, objKey a)],
              axelarNodes := (axelarNodes c)(objKey a \<mapsto> a\<lparr>Status := st\<rparr>)\<rparr>)" ..
  then show ?thesis by simp
qed

theorem converged_pass_still_updates_witness:
  "converged parsesExample runningObserver convergedCluster \<and>
   faults convergedCluster = [] \<and> writes convergedCluster = [] \<and>
   fst (snd (Reconcile parsesExample (''axelar'', ''obs'') convergedCluster)) = None \<and>
   writes (snd (snd (Reconcile parsesExample (''axelar'', ''obs'') convergedCluster))) =
     [(Update, KConfigMap, (''axelar'', ''obs-config'')),
      (Update, KService, (''axelar'', ''obs-service'')),
      (StatusUpdate, KAxelarNode, (''axelar'', ''obs''))] \<and>
   deployments (snd (snd (Reconcile parsesExample (''axelar'', ''obs'') convergedCluster))) =
     deployments convergedCluster"
proof -
  have nf: "faults convergedCluster = []" and nw: "writes convergedCluster = []"
    by (simp_all add: convergedCluster_def convergedClusterOf_simps)
  have keys: "objKey (desiredConfigMap runningObserver) = (''axelar'', ''obs-config'')"
      "objKey (desiredService runningObserver) = (''axelar'', ''obs-service'')"
    by (simp_all add: desired_keys runningObserver_def mkNode_simps)
  from converged_pass_still_updates [OF convergedCluster_converged nf]
  show ?thesis
    by (simp add: convergedCluster_converged nf nw keys convergedCluster_facts)
qed

text \<open>
  C4 as stated fails: the pass over the converged example cluster issues three update
  calls, two of them for objects that already equal the generated target.
\<close>

theorem converged_pass_issues_updates_counterexample:
  "converged parsesExample runningObserver convergedCluster \<and>
   faults convergedCluster = [] \<and> writes convergedCluster = [] \<and>
   writes (snd (snd (Reconcile parsesExample (objKey runningObserver) convergedCluster))) =
     [(Update, KConfigMap, objKey (desiredConfigMap runningObserver)),
      (Update, KService, objKey (desiredService runningObserver)),
      (StatusUpdate, KAxelarNode, objKey runningObserver)]"
proof -
  have nf: "faults convergedCluster = []" and nw: "writes convergedCluster = []"
    by (simp_all add: convergedCluster_def convergedClusterOf_simps)
  from Reconcile_converged [OF convergedCluster_converged nf] obtain st where
    "Reconcile parsesExample (objKey runningObserver) convergedCluster =
           (\<lparr>Requeue = False, RequeueAfter = Minute * 5\<rparr>, None,
            convergedCluster\<lparr>writes := writes convergedCluster @
                 [(Update, KConfigMap, objKey (desiredConfigMap runningObserver)),
                  (Update, KService, objKey (desiredService runningObserver)),
                  (StatusUpdate, KAxelarNode, objKey runningObserver)],
              axelarNodes := (axelarNodes convergedCluster)
                 (objKey runningObserver \<mapsto> runningObserver\<lparr>Status := st\<rparr>)\<rparr>)" ..
  then show ?thesis
    by (simp add: convergedCluster_converged nf nw)
qed

section \<open>A failing status poll\<close>

lemma Reconcile_poll_failed:
  assumes "api_Get axelarNodes req c = (Inr a, c1)" and "DeletionTimestamp a = None"
    and "ContainsFinalizer a finalizerName"
    and "initializePhase a c1 = (None, a2, c2)"
    and "reconcileResources parses a2 c2 = (None, c3)"
    and "api_Get deployments (Namespace a2, Name a2) c3 = (Inl e, c4)"
  shows "Reconcile parses req c = (emptyResult, Some e, c4)"
  using assms by (simp add: Reconcile_def updateStatus_get_failed)

text \<open>
  C5, as the code has it. When the pass has come as far as the status refresh and the
  read of the deployment fails there, the pass as a whole fails: it returns that error
  with the empty result. The refresh itself changes nothing: the resource in hand keeps
  its status, the phase included, and the stored resources are the same.
\<close>

theorem status_poll_failure_fails_the_pass:
  assumes "api_Get axelarNodes req c = (Inr a, c1)" and "DeletionTimestamp a = None"
    and "ContainsFinalizer a finalizerName"
    and "initializePhase a c1 = (None, a2, c2)"
    and "reconcileResources parses a2 c2 = (None, c3)"
    and "api_Get deployments (Namespace a2, Name a2) c3 = (Inl e, c4)"
  shows "Reconcile parses req c = (emptyResult, Some e, c4) \<and>
         updateStatus a2 c3 = (Some e, a2, c4) \<and>
         axelarNodes c4 = axelarNodes c3"
  using Reconcile_poll_failed [OF assms] updateStatus_get_failed [OF assms(6)]
    api_Get_frame [OF assms(6)]
  by simp

lemmas example_unfold =
  reconcileResources_def andThen_def reconcileConfigMap_def reconcileSecret_def reconcilePVC_def
  createPVC_def createOrUpdatePVC_def reconcileService_def reconcileDeployment_def
  deploymentEqual_def createPodSpec_def validatorEnabled_def
  desiredConfigMap_def desiredSecret_def desiredService_def pvcObject_def
  SetControllerReference_def mkMeta_def objKey_def ObjectMeta.defs ConfigMap.defs Secret.defs
  Service.defs PersistentVolumeClaim.defs Deployment.defs AxelarNode.defs createDeployment_def
  deploymentWith_def convergedCluster_def convergedClusterOf_def emptyCluster_def
  runningObserver_def mkNode_def defaultSpec_def runningStatus_def emptyStatus_def
  pollFailureCluster_def finalizerName_def parsesExample_def
  api_Get_def api_Create_def api_Update_def next_fault_def log_write_def Let_def

lemma pollFailureCluster_run:
  "api_Get axelarNodes (''axelar'', ''obs'') pollFailureCluster =
     (Inr runningObserver,
      pollFailureCluster\<lparr>faults := [None, None, None, None, None, None, None, None, Some ErrOther]\<rparr>)"
  "initializePhase runningObserver
      (pollFailureCluster\<lparr>faults := [None, None, None, None, None, None, None, None, Some ErrOther]\<rparr>) =
     (None, runningObserver,
      pollFailureCluster\<lparr>faults := [None, None, None, None, None, None, None, None, Some ErrOther]\<rparr>)"
  "fst (reconcileResources parsesExample runningObserver
      (pollFailureCluster\<lparr>faults := [None, None, None, None, None, None, None, None, Some ErrOther]\<rparr>)) = None"
  "faults (snd (reconcileResources parsesExample runningObserver
      (pollFailureCluster\<lparr>faults := [None, None, None, None, None, None, None, None, Some ErrOther]\<rparr>))) =
     [Some ErrOther]"
proof -
  show "api_Get axelarNodes (''axelar'', ''obs'') pollFailureCluster =
     (Inr runningObserver,
      pollFailureCluster\<lparr>faults := [None, None, None, None, None, None, None, None, Some ErrOther]\<rparr>)"
    by (simp add: api_Get_def next_fault_def pollFailureCluster_def convergedCluster_facts)
  show "initializePhase runningObserver
      (pollFailureCluster\<lparr>faults := [None, None, None, None, None, None, None, None, Some ErrOther]\<rparr>) =
     (None, runningObserver,
      pollFailureCluster\<lparr>faults := [None, None, None, None, None, None, None, None, Some ErrOther]\<rparr>)"
    by (simp add: initializePhase_def runningObserver_def mkNode_simps runningStatus_def emptyStatus_def)
  show "fst (reconcileResources parsesExample runningObserver
      (pollFailureCluster\<lparr>faults := [None, None, None, None, None, None, None, None, Some ErrOther]\<rparr>)) = None"
    by (simp add: example_unfold)
  show "faults (snd (reconcileResources parsesExample runningObserver
      (pollFailureCluster\<lparr>faults := [None, None, None, None, None, None, None, None, Some ErrOther]\<rparr>))) =
     [Some ErrOther]"
    by (simp add: example_unfold)
qed

theorem status_poll_failure_fails_the_pass_witness:
  "faults pollFailureCluster = [None, None, None, None, None, None, None, None, None, Some ErrOther] \<and>
   Phase (Status runningObserver) = ''Running'' \<and>
   fst (Reconcile parsesExample (''axelar'', ''obs'') pollFailureCluster) = emptyResult \<and>
   fst (snd (Reconcile parsesExample (''axelar'', ''obs'') pollFailureCluster)) = Some ErrOther \<and>
   map_option (Phase \<circ> Status)
     (axelarNodes (snd (snd (Reconcile parsesExample (''axelar'', ''obs'') pollFailureCluster)))
        (''axelar'', ''obs'')) = Some ''Running''"
proof -
  let ?c1 = "pollFailureCluster\<lparr>faults := [None, None, None, None, None, None, None, None, Some ErrOther]\<rparr>"
  let ?rr = "reconcileResources parsesExample runningObserver ?c1"
  have rr: "?rr = (None, snd ?rr)"
    using pollFailureCluster_run(3) by (metis prod.collapse)
  have poll: "api_Get deployments (Namespace runningObserver, Name runningObserver) (snd ?rr) =
      (Inl ErrOther, (snd ?rr)\<lparr>faults := []\<rparr>)"
    by (rule api_Get_fault) (rule pollFailureCluster_run(4))
  have nodes: "axelarNodes (snd ?rr) = axelarNodes pollFailureCluster"
    using reconcileResources_frame [OF rr] by simp
  have stored: "axelarNodes pollFailureCluster (''axelar'', ''obs'') = Some runningObserver"
    by (simp add: pollFailureCluster_def convergedCluster_facts)
  have phase: "Phase (Status runningObserver) = ''Running''"
    by (simp add: runningObserver_def mkNode_simps runningStatus_def emptyStatus_def)
  have fs: "faults pollFailureCluster = [None, None, None, None, None, None, None, None, None, Some ErrOther]"
    by (simp add: pollFailureCluster_def)
  from status_poll_failure_fails_the_pass [OF pollFailureCluster_run(1) convergedCluster_facts(2)
      convergedCluster_facts(3) pollFailureCluster_run(2) rr poll]
  show ?thesis
    by (simp add: nodes stored phase fs)
qed

text \<open>
  C5 as stated fails: on the converged example cluster, with a platform that fails
  nothing but the deployment read of the status refresh, the five reconcile steps
  succeed and the pass returns that read's error.
\<close>

theorem status_poll_failure_is_returned_counterexample:
  "faults pollFailureCluster = [None, None, None, None, None, None, None, None, None, Some ErrOther] \<and>
   fst (reconcileResources parsesExample runningObserver
      (pollFailureCluster\<lparr>faults := [None, None, None, None, None, None, None, None, Some ErrOther]\<rparr>)) = None \<and>
   fst (snd (Reconcile parsesExample (''axelar'', ''obs'') pollFailureCluster)) = Some ErrOther"
proof -
  let ?c1 = "pollFailureCluster\<lparr>faults := [None, None, None, None, None, None, None, None, Some ErrOther]\<rparr>"
  let ?rr = "reconcileResources parsesExample runningObserver ?c1"
  have rr: "?rr = (None, snd ?rr)"
    using pollFailureCluster_run(3) by (metis prod.collapse)
  have poll: "api_Get deployments (Namespace runningObserver, Name runningObserver) (snd ?rr) =
      (Inl ErrOther, (snd ?rr)\<lparr>faults := []\<rparr>)"
    by (rule api_Get_fault) (rule pollFailureCluster_run(4))
  have fs: "faults pollFailureCluster = [None, None, None, None, None, None, None, None, None, Some ErrOther]"
    by (simp add: pollFailureCluster_def)
  from Reconcile_poll_failed [OF pollFailureCluster_run(1) convergedCluster_facts(2)
      convergedCluster_facts(3) pollFailureCluster_run(2) rr poll]
  show ?thesis
    by (simp add: fs pollFailureCluster_run(3))
qed

end
